theory Spec2Isabelle
  imports Complex_Main
begin

section \<open>Python values shared by all modules\<close>

text \<open>
  Exceptions are values. \<open>ValueError\<close> and \<open>NotEnoughPointsLeftError\<close> carry the
  message the source builds; the other exceptions are raised by the interpreter or a
  library (a missing attribute of \<open>None\<close>, a label that is not in an index, a failed
  \<open>instance_of\<close> check) and carry nothing.
\<close>

datatype error =
    ValueError string
  | TypeError
  | KeyError
  | AttributeError
  | OverflowError
  | NotEnoughPointsLeftError string
  | NotImplementedError

text \<open>
  A Python \<open>float\<close> or an entry of a torch tensor: \<open>Finite r\<close> is the float of value
  \<open>r\<close>, beside the two infinities and NaN. Comparisons with NaN are false, as in
  IEEE 754. The sign of a zero is not modelled.
\<close>

datatype pyfloat = Finite real | PosInf | NegInf | NaN

fun float_gt :: "pyfloat \<Rightarrow> real \<Rightarrow> bool" where
  "float_gt (Finite r) b = (r > b)"
| "float_gt PosInf b = True"
| "float_gt NegInf b = False"
| "float_gt NaN b = False"

fun float_ge :: "pyfloat \<Rightarrow> real \<Rightarrow> bool" where
  "float_ge (Finite r) b = (r \<ge> b)"
| "float_ge PosInf b = True"
| "float_ge NegInf b = False"
| "float_ge NaN b = False"

fun float_le :: "pyfloat \<Rightarrow> real \<Rightarrow> bool" where
  "float_le (Finite r) b = (r \<le> b)"
| "float_le PosInf b = False"
| "float_le NegInf b = True"
| "float_le NaN b = False"

subsection \<open>Rounding to a binary format\<close>

text \<open>
  The two formats of IEEE 754 the sources meet: double precision (a Python \<open>float\<close>)
  and single precision (torch's default dtype). A format has its number of
  significand bits, the exponent of its smallest subnormal and the exponent of the
  first power of two beyond its range.
\<close>

datatype dtype = float32 | float64

fun precision :: "dtype \<Rightarrow> nat" where
  "precision float32 = 24"
| "precision float64 = 53"

fun min_exponent :: "dtype \<Rightarrow> int" where
  "min_exponent float32 = - 149"
| "min_exponent float64 = - 1074"

fun overflow_exponent :: "dtype \<Rightarrow> nat" where
  "overflow_exponent float32 = 128"
| "overflow_exponent float64 = 1024"

text \<open>The nearest integer, a tie going to the even one.\<close>

definition round_half_even :: "real \<Rightarrow> int" where
  "round_half_even y =
     (if y - of_int \<lfloor>y\<rfloor> < 1 / 2 then \<lfloor>y\<rfloor>
      else if y - of_int \<lfloor>y\<rfloor> > 1 / 2 then \<lfloor>y\<rfloor> + 1
      else if even \<lfloor>y\<rfloor> then \<lfloor>y\<rfloor> else \<lfloor>y\<rfloor> + 1)"

text \<open>
  The exponent of the unit in the last place of \<open>x\<close>, and \<open>x\<close> rounded to the nearest
  multiple of that unit (round to nearest, ties to even).
\<close>

definition quantum :: "dtype \<Rightarrow> real \<Rightarrow> int" where
  "quantum dt x = max (min_exponent dt) (\<lfloor>log 2 \<bar>x\<bar>\<rfloor> - (int (precision dt) - 1))"

definition round_to :: "dtype \<Rightarrow> real \<Rightarrow> real" where
  "round_to dt x =
     (if x = 0 then 0
      else of_int (round_half_even (x / 2 powi quantum dt x)) * 2 powi quantum dt x)"

text \<open>The float of a format that a real result becomes: it overflows to an infinity.\<close>

definition to_float :: "dtype \<Rightarrow> real \<Rightarrow> pyfloat" where
  "to_float dt x =
     (if \<bar>round_to dt x\<bar> \<ge> 2 ^ overflow_exponent dt
      then (if x > 0 then PosInf else NegInf)
      else Finite (round_to dt x))"

text \<open>
  The \<open>int\<close> operand of \<open>float * int\<close> is converted to a \<open>float\<close> first; Python raises
  \<open>OverflowError\<close> when it is too large.
\<close>

definition float_of_nat :: "nat \<Rightarrow> error + pyfloat" where
  "float_of_nat n =
     (case to_float float64 (real n) of
        Finite y \<Rightarrow> Inr (Finite y)
      | _ \<Rightarrow> Inl OverflowError)"

text \<open>\<open>x * y\<close> for two Python floats: the product, rounded to double precision.\<close>

fun float_mul :: "pyfloat \<Rightarrow> pyfloat \<Rightarrow> pyfloat" where
  "float_mul NaN y = NaN"
| "float_mul x NaN = NaN"
| "float_mul (Finite x) (Finite y) = to_float float64 (x * y)"
| "float_mul (Finite x) PosInf = (if x = 0 then NaN else if x > 0 then PosInf else NegInf)"
| "float_mul (Finite x) NegInf = (if x = 0 then NaN else if x > 0 then NegInf else PosInf)"
| "float_mul PosInf (Finite y) = (if y = 0 then NaN else if y > 0 then PosInf else NegInf)"
| "float_mul NegInf (Finite y) = (if y = 0 then NaN else if y > 0 then NegInf else PosInf)"
| "float_mul PosInf PosInf = PosInf"
| "float_mul PosInf NegInf = NegInf"
| "float_mul NegInf PosInf = NegInf"
| "float_mul NegInf NegInf = PosInf"

text \<open>\<open>math.ceil\<close>: an \<open>int\<close>; it raises on NaN and on the infinities.\<close>

fun math_ceil :: "pyfloat \<Rightarrow> error + int" where
  "math_ceil (Finite r) = Inr \<lceil>r\<rceil>"
| "math_ceil PosInf = Inl OverflowError"
| "math_ceil NegInf = Inl OverflowError"
| "math_ceil NaN = Inl (ValueError ''cannot convert float NaN to integer'')"

text \<open>
  \<open>a or b\<close> on optional integers: \<open>a\<close> when it is truthy (neither \<open>None\<close> nor
  \<open>0\<close>), else \<open>b\<close>.
\<close>

definition py_or :: "int option \<Rightarrow> int option \<Rightarrow> int option" where
  "py_or a b = (case a of None \<Rightarrow> b | Some n \<Rightarrow> if n = 0 then b else Some n)"

subsection \<open>Rendering integers and tuples in messages\<close>

fun str_nat :: "nat \<Rightarrow> string" where
  "str_nat n =
     (if n < 10 then [''0123456789'' ! n]
      else str_nat (n div 10) @ [''0123456789'' ! (n mod 10)])"

declare str_nat.simps [simp del]

definition str_int :: "int \<Rightarrow> string" where
  "str_int i = (if i < 0 then CHR ''-'' # str_nat (nat (- i)) else str_nat (nat i))"

fun join_comma :: "string list \<Rightarrow> string" where
  "join_comma [] = []"
| "join_comma [s] = s"
| "join_comma (s # t # ss) = s @ '', '' @ join_comma (t # ss)"

text \<open>\<open>repr\<close> of a tuple of integers: \<open>()\<close>, \<open>(1,)\<close>, \<open>(1, 2)\<close>.\<close>

definition repr_tuple :: "int list \<Rightarrow> string" where
  "repr_tuple t =
     (case t of
        [x] \<Rightarrow> ''('' @ str_int x @ '',)''
      | _ \<Rightarrow> ''('' @ join_comma (map str_int t) @ '')'')"

section \<open>baybe/utils/scaling.py: ColumnTransformer\<close>

text \<open>
  The \<open>mapping\<close> attribute is a dict from tuples of column indices to transform objects:
  an association list in insertion order. The type of the values is a parameter; the
  \<open>isinstance\<close> check against botorch's \<open>InputTransform\<close> is the predicate
  \<open>is_transform\<close>.
\<close>

record 'v ColumnTransformer =
  mapping :: "(int list \<times> 'v) list"

text \<open>
  \<open>_validate_mapping_types_lazily\<close>: \<open>deep_mapping\<close> checks the values with
  \<open>instance_of(InputTransform)\<close>, which raises \<open>TypeError\<close>. The keys are tuples of
  integers by their type here.
\<close>

definition validate_mapping_types_lazily ::
  "('v \<Rightarrow> bool) \<Rightarrow> (int list \<times> 'v) list \<Rightarrow> error + unit" where
  "validate_mapping_types_lazily is_transform value =
     (if list_all (\<lambda>kv. is_transform (snd kv)) value then Inr () else Inl TypeError)"

text \<open>\<open>itertools.combinations(keys, 2)\<close>, in the order it yields the pairs.\<close>

fun combinations2 :: "'a list \<Rightarrow> ('a \<times> 'a) list" where
  "combinations2 [] = []"
| "combinations2 (x # xs) = map (Pair x) xs @ combinations2 xs"

definition isdisjoint :: "int list \<Rightarrow> int list \<Rightarrow> bool" where
  "isdisjoint x y = (set x \<inter> set y = {})"

definition not_disjoint_message :: "int list \<Rightarrow> int list \<Rightarrow> string" where
  "not_disjoint_message x y =
     ''The provided column specifications '' @ repr_tuple x @ '' and '' @ repr_tuple y
       @ '' are not disjoint.''"

text \<open>The loop of \<open>_validate_mapping_is_disjoint\<close>: it raises at the first pair that overlaps.\<close>

fun check_pairs :: "(int list \<times> int list) list \<Rightarrow> error + unit" where
  "check_pairs [] = Inr ()"
| "check_pairs ((x, y) # ps) =
     (if \<not> isdisjoint x y then Inl (ValueError (not_disjoint_message x y))
      else check_pairs ps)"

definition validate_mapping_is_disjoint :: "(int list \<times> 'v) list \<Rightarrow> error + unit" where
  "validate_mapping_is_disjoint value = check_pairs (combinations2 (map fst value))"

text \<open>
  Construction: attrs runs the two validators of \<open>mapping\<close> in the order they are
  declared, and the object exists only when both pass.
\<close>

definition ColumnTransformer_init ::
  "('v \<Rightarrow> bool) \<Rightarrow> (int list \<times> 'v) list \<Rightarrow> error + 'v ColumnTransformer" where
  "ColumnTransformer_init is_transform value =
     (case validate_mapping_types_lazily is_transform value of
        Inl e \<Rightarrow> Inl e
      | Inr _ \<Rightarrow>
          (case validate_mapping_is_disjoint value of
             Inl e \<Rightarrow> Inl e
           | Inr _ \<Rightarrow> Inr \<lparr>mapping = value\<rparr>))"

section \<open>baybe/surrogates/naive.py: MeanPredictionSurrogate\<close>









section \<open>The search space, as its users in these sources see it\<close>

text \<open>
  A data frame is the list of its rows in order, each with its index label. The
  experimental representation holds the cells as text, the computational
  representation holds numbers, the metadata table holds the three flags.
\<close>

type_synonym label = int

type_synonym 'r df = "(label \<times> 'r) list"

record metadata_row =
  was_recommended :: bool
  was_measured :: bool
  dont_recommend :: bool

record subspace_discrete =
  exp_rep :: "string list df"
  comp_rep :: "real list df"
  metadata :: "metadata_row df"

record subspace_continuous =
  empty :: bool

text \<open>
  Modelled from the spec: the class \<open>SearchSpace\<close> is not part of these sources. The
  spec gives it a nullable discrete part and a nullable continuous part (section 6);
  \<open>recommender.py\<close> reads \<open>searchspace.discrete\<close> and \<open>searchspace.continuous.empty\<close>
  without a check, \<open>acqfs.py\<close> tests both parts against \<open>None\<close>.
\<close>

record searchspace =
  discrete :: "subspace_discrete option"
  continuous :: "subspace_continuous option"

text \<open>
  Modelled from the spec: \<open>SubspaceDiscrete.get_candidates\<close> is not part of these
  sources. The spec describes the candidate set as the rows of the representations
  that the repetition and measurement policy does not exclude, over the metadata flags
  \<open>was_recommended\<close>, \<open>was_measured\<close> and \<open>dont_recommend\<close>; it returns the filtered
  experimental and computational tables. The functions of \<open>recommender.py\<close> below take
  \<open>get_candidates\<close> as a parameter; this definition is the instance used at concrete
  inputs.
\<close>

definition excluded :: "bool \<Rightarrow> bool \<Rightarrow> metadata_row \<Rightarrow> bool" where
  "excluded allow_repeated_recommendations allow_recommending_already_measured m =
     (dont_recommend m
      \<or> (\<not> allow_repeated_recommendations \<and> was_recommended m)
      \<or> (\<not> allow_recommending_already_measured \<and> was_measured m))"

definition is_candidate :: "subspace_discrete \<Rightarrow> bool \<Rightarrow> bool \<Rightarrow> label \<Rightarrow> bool" where
  "is_candidate d allow_repeated_recommendations allow_recommending_already_measured i =
     (case map_of (metadata d) i of
        None \<Rightarrow> False
      | Some m \<Rightarrow>
          \<not> excluded allow_repeated_recommendations allow_recommending_already_measured m)"

definition get_candidates ::
  "subspace_discrete \<Rightarrow> bool \<Rightarrow> bool \<Rightarrow> string list df \<times> real list df" where
  "get_candidates d allow_repeated_recommendations allow_recommending_already_measured =
     (filter (\<lambda>r. is_candidate d allow_repeated_recommendations
                      allow_recommending_already_measured (fst r)) (exp_rep d),
      filter (\<lambda>r. is_candidate d allow_repeated_recommendations
                      allow_recommending_already_measured (fst r)) (comp_rep d))"

section \<open>baybe/strategies/recommender.py\<close>

subsection \<open>Indexing a data frame by labels\<close>

definition labels :: "'r df \<Rightarrow> label list" where
  "labels df = map fst df"

text \<open>
  \<open>df.loc[idxs, :]\<close>: the rows of each requested label, in the order of the request;
  \<open>KeyError\<close> when a label is not in the index.
\<close>

definition loc_rows :: "'r df \<Rightarrow> label list \<Rightarrow> error + 'r df" where
  "loc_rows df idxs =
     (if list_all (\<lambda>i. i \<in> set (labels df)) idxs
      then Inr (concat (map (\<lambda>i. filter (\<lambda>r. fst r = i) df) idxs))
      else Inl KeyError)"

text \<open>\<open>metadata.loc[idxs, "was_recommended"] = True\<close>.\<close>

definition loc_set_was_recommended :: "metadata_row df \<Rightarrow> label list \<Rightarrow> error + metadata_row df" where
  "loc_set_was_recommended md idxs =
     (if list_all (\<lambda>i. i \<in> set (labels md)) idxs
      then Inr (map (\<lambda>r. if fst r \<in> set idxs
                           then (fst r, (snd r)\<lparr>was_recommended := True\<rparr>) else r) md)
      else Inl KeyError)"

subsection \<open>select\_candidates\_and\_recommend\<close>

definition not_enough_points_message :: "int \<Rightarrow> string" where
  "not_enough_points_message batch_quantity =
     ''Using the current settings, there are fewer than '' @ str_int batch_quantity
     @ '' possible data points left to recommend. This can be ''
     @ ''either because all data points have been measured at some point ''
     @ ''(while '' @ [CHR 0x27] @ ''allow_repeated_recommendations'' @ [CHR 0x27] @ '' or ''
     @ [CHR 0x27] @ ''allow_recommending_already_measured'' @ [CHR 0x27] @ '' being False) ''
     @ ''or because all data points are marked as '' @ [CHR 0x27] @ ''dont_recommend''
     @ [CHR 0x27] @ ''.''"

text \<open>
  \<open>flag or not searchspace.continuous.empty\<close>: the right operand is evaluated only when
  the flag is false, and reading \<open>empty\<close> of \<open>None\<close> raises \<open>AttributeError\<close>.
\<close>

definition flag_or_continuous :: "bool \<Rightarrow> searchspace \<Rightarrow> error + bool" where
  "flag_or_continuous flag ss =
     (if flag then Inr True
      else (case continuous ss of
              None \<Rightarrow> Inl AttributeError
            | Some c \<Rightarrow> Inr (\<not> empty c)))"

text \<open>
  Lines 42 to 47: the call of \<open>searchspace.discrete.get_candidates\<close>, whose second
  result is kept. The callee is looked up first, then the two arguments are
  evaluated from left to right.
\<close>

definition filtered_candidates ::
  "(subspace_discrete \<Rightarrow> bool \<Rightarrow> bool \<Rightarrow> string list df \<times> real list df)
     \<Rightarrow> searchspace \<Rightarrow> bool \<Rightarrow> bool \<Rightarrow> error + real list df" where
  "filtered_candidates get_cands ss allow_repeated_recommendations
       allow_recommending_already_measured =
     (case discrete ss of
        None \<Rightarrow> Inl AttributeError
      | Some d \<Rightarrow>
          (case flag_or_continuous allow_repeated_recommendations ss of
             Inl e \<Rightarrow> Inl e
           | Inr f1 \<Rightarrow>
               (case flag_or_continuous allow_recommending_already_measured ss of
                  Inl e \<Rightarrow> Inl e
                | Inr f2 \<Rightarrow> Inr (snd (get_cands d f1 f2)))))"

text \<open>
  Lines 49 to 68: the check of the candidate count, the callback, the lookup of the
  experimental rows and the update of the metadata. The result is paired with the
  search space after the call; a raise leaves the search space as it was.
\<close>

definition recommend_and_mark ::
  "(searchspace \<Rightarrow> real list df \<Rightarrow> int \<Rightarrow> error + label list)
     \<Rightarrow> searchspace \<Rightarrow> real list df \<Rightarrow> int \<Rightarrow> (error + string list df) \<times> searchspace" where
  "recommend_and_mark recommend ss candidates_comp batch_quantity =
     (if int (length candidates_comp) < batch_quantity
      then (Inl (NotEnoughPointsLeftError (not_enough_points_message batch_quantity)), ss)
      else
        (case recommend ss candidates_comp batch_quantity of
           Inl e \<Rightarrow> (Inl e, ss)
         | Inr idxs \<Rightarrow>
             (case discrete ss of
                None \<Rightarrow> (Inl AttributeError, ss)
              | Some d \<Rightarrow>
                  (case loc_rows (exp_rep d) idxs of
                     Inl e \<Rightarrow> (Inl e, ss)
                   | Inr rec \<Rightarrow>
                       (case loc_set_was_recommended (metadata d) idxs of
                          Inl e \<Rightarrow> (Inl e, ss)
                        | Inr md \<Rightarrow>
                            (Inr rec, ss\<lparr>discrete := Some (d\<lparr>metadata := md\<rparr>)\<rparr>))))))"

definition select_candidates_and_recommend ::
  "(subspace_discrete \<Rightarrow> bool \<Rightarrow> bool \<Rightarrow> string list df \<times> real list df)
     \<Rightarrow> searchspace \<Rightarrow> (searchspace \<Rightarrow> real list df \<Rightarrow> int \<Rightarrow> error + label list)
     \<Rightarrow> int \<Rightarrow> bool \<Rightarrow> bool \<Rightarrow> (error + string list df) \<times> searchspace" where
  "select_candidates_and_recommend get_cands ss recommend batch_quantity
       allow_repeated_recommendations allow_recommending_already_measured =
     (case filtered_candidates get_cands ss allow_repeated_recommendations
             allow_recommending_already_measured of
        Inl e \<Rightarrow> (Inl e, ss)
      | Inr candidates_comp \<Rightarrow> recommend_and_mark recommend ss candidates_comp batch_quantity)"

text \<open>The metadata table of a search space (empty when there is no discrete part).\<close>

definition metadata_of :: "searchspace \<Rightarrow> metadata_row df" where
  "metadata_of ss = (case discrete ss of None \<Rightarrow> [] | Some d \<Rightarrow> metadata d)"

text \<open>The labels of the rows whose \<open>was_recommended\<close> flag is set.\<close>

definition recommended_labels :: "searchspace \<Rightarrow> label list" where
  "recommended_labels ss = labels (filter (\<lambda>r. was_recommended (snd r)) (metadata_of ss))"

subsection \<open>BayesianRecommender.get\_acquisition\_function\_cls\<close>

text \<open>
  The classes the module imports from \<open>botorch.acquisition\<close>. An entry of the mapping
  is such a class or a \<open>functools.partial\<close> of one with preset keyword arguments.
\<close>

datatype botorch_class =
    botorch_PosteriorMean
  | botorch_ProbabilityOfImprovement
  | botorch_ExpectedImprovement
  | botorch_UpperConfidenceBound
  | botorch_qExpectedImprovement
  | botorch_qProbabilityOfImprovement
  | botorch_qUpperConfidenceBound

datatype acqf_constructor =
    Class botorch_class
  | Partial botorch_class "(string \<times> real) list"

record BayesianRecommender =
  surrogate_model_cls :: string
  acquisition_function_cls :: string

definition acqf_mapping :: "(string \<times> acqf_constructor) list" where
  "acqf_mapping =
     [(''PM'', Class botorch_PosteriorMean),
      (''PI'', Class botorch_ProbabilityOfImprovement),
      (''EI'', Class botorch_ExpectedImprovement),
      (''UCB'', Partial botorch_UpperConfidenceBound [(''beta'', 1)]),
      (''qEI'', Class botorch_qExpectedImprovement),
      (''qPI'', Class botorch_qProbabilityOfImprovement),
      (''qUCB'', Partial botorch_qUpperConfidenceBound [(''beta'', 1)])]"

text \<open>
  \<open>debotorchize\<close> is not part of these sources: it is a parameter. A key that is not
  in the mapping raises \<open>KeyError\<close>.
\<close>

definition get_acquisition_function_cls ::
  "(acqf_constructor \<Rightarrow> 'w) \<Rightarrow> BayesianRecommender \<Rightarrow> error + 'w" where
  "get_acquisition_function_cls debotorchize self =
     (case map_of acqf_mapping (acquisition_function_cls self) of
        None \<Rightarrow> Inl KeyError
      | Some c \<Rightarrow> Inr (debotorchize c))"

text \<open>
  Calling a constructor with keyword arguments: the class that is called in the end
  and the keyword arguments it receives. A partial passes \<open>{**keywords, **kwargs}\<close>:
  its preset keywords, overridden by those of the call.
\<close>

fun call_keywords ::
  "acqf_constructor \<Rightarrow> (string \<times> real) list \<Rightarrow> botorch_class \<times> (string \<rightharpoonup> real)" where
  "call_keywords (Class c) kwargs = (c, map_of kwargs)"
| "call_keywords (Partial c keywords) kwargs = (c, map_of keywords ++ map_of kwargs)"

section \<open>baybe/acquisition/acqfs.py\<close>

subsection \<open>Construction and the attrs validators\<close>

text \<open>
  A range validator of attrs (\<open>gt\<close>, \<open>ge\<close>, \<open>le\<close>) raises \<open>ValueError\<close> when the
  comparison of the value with the bound is false. The message is the one attrs
  builds, up to the rendered value that follows it. A decimal literal of the source
  is taken as the decimal number it writes; the comparisons with the bounds 0 and 1
  give the same for it and for the double nearest to it.
\<close>

definition range_error :: "string \<Rightarrow> string \<Rightarrow> string \<Rightarrow> error" where
  "range_error name op bound =
     ValueError ([CHR 0x27] @ name @ [CHR 0x27] @ '' must be '' @ op @ '' '' @ bound)"

text \<open>
  Modelled from the spec: the enumeration \<open>SamplingMethod\<close> is not part of these
  sources. The source names its member \<open>Random\<close>; the spec adds a structured
  diversity method (farthest point sampling).
\<close>

datatype SamplingMethod = Random | FPS

record qNegIntegratedPosteriorVariance =
  sampling_fraction :: pyfloat
  sampling_n_points :: "int option"
  sampling_method :: SamplingMethod

text \<open>
  The arguments are the values after conversion (\<open>float\<close>, \<open>SamplingMethod\<close>). The
  validators run in the order of the attributes: \<open>gt(0.0)\<close> and \<open>le(1.0)\<close> on
  \<open>sampling_fraction\<close>, then \<open>gt(0)\<close> on \<open>sampling_n_points\<close> when it is not \<open>None\<close>
  (\<open>instance_of(int)\<close> holds by the type).
\<close>

definition qNegIntegratedPosteriorVariance_init ::
  "pyfloat \<Rightarrow> int option \<Rightarrow> SamplingMethod \<Rightarrow> error + qNegIntegratedPosteriorVariance" where
  "qNegIntegratedPosteriorVariance_init sf snp sm =
     (if \<not> float_gt sf 0 then Inl (range_error ''sampling_fraction'' ''>'' ''0.0'')
      else if \<not> float_le sf 1 then Inl (range_error ''sampling_fraction'' ''<='' ''1.0'')
      else
        (case snp of
           None \<Rightarrow>
             Inr \<lparr>sampling_fraction = sf, sampling_n_points = None, sampling_method = sm\<rparr>
         | Some n \<Rightarrow>
             if \<not> n > 0 then Inl (range_error ''sampling_n_points'' ''>'' ''0'')
             else Inr \<lparr>sampling_fraction = sf, sampling_n_points = Some n,
                       sampling_method = sm\<rparr>))"

text \<open>
  The two classes of the upper confidence bound have the same single attribute
  \<open>beta\<close>, with \<open>converter=float\<close>, \<open>validator=ge(0.0)\<close> and \<open>default=0.2\<close>. The argument
  is \<open>None\<close> when the caller leaves \<open>beta\<close> out.
\<close>

datatype ucb = UpperConfidenceBound (beta: pyfloat) | qUpperConfidenceBound (beta: pyfloat)

definition validate_beta :: "pyfloat option \<Rightarrow> error + pyfloat" where
  "validate_beta b =
     (let v = (case b of None \<Rightarrow> Finite (2 / 10) | Some x \<Rightarrow> x)
      in if \<not> float_ge v 0 then Inl (range_error ''beta'' ''>='' ''0.0'') else Inr v)"

definition UpperConfidenceBound_init :: "pyfloat option \<Rightarrow> error + ucb" where
  "UpperConfidenceBound_init b =
     (case validate_beta b of Inl e \<Rightarrow> Inl e | Inr v \<Rightarrow> Inr (UpperConfidenceBound v))"

definition qUpperConfidenceBound_init :: "pyfloat option \<Rightarrow> error + ucb" where
  "qUpperConfidenceBound_init b =
     (case validate_beta b of Inl e \<Rightarrow> Inl e | Inr v \<Rightarrow> Inr (qUpperConfidenceBound v))"

subsection \<open>qNegIntegratedPosteriorVariance.get\_integration\_points\<close>

definition class_repr :: string where
  "class_repr =
     ''<class '' @ [CHR 0x27]
     @ ''baybe.acquisition.acqfs.qNegIntegratedPosteriorVariance'' @ [CHR 0x27] @ ''>''"

text \<open>The message of lines 90 and 91; the two literals are joined without a space.\<close>

definition sampling_n_points_message :: string where
  "sampling_n_points_message =
     [CHR 0x27] @ ''sampling_n_points'' @ [CHR 0x27] @ '' must be provided for ''
     @ [CHR 0x27] @ class_repr @ [CHR 0x27] @ '' when''
     @ ''sampling purely continuous search spaces.''"

text \<open>
  \<open>sampled_conti.index = sampled_parts[0].index\<close>: pandas raises \<open>ValueError\<close> when the
  new index has another length than the frame.
\<close>

definition length_mismatch_message :: "nat \<Rightarrow> nat \<Rightarrow> string" where
  "length_mismatch_message old new =
     ''Length mismatch: Expected axis has '' @ str_nat old @ '' elements, new values have ''
     @ str_nat new @ '' elements''"

definition set_index :: "'r df \<Rightarrow> label list \<Rightarrow> error + 'r df" where
  "set_index frame new =
     (if length new \<noteq> length frame
      then Inl (ValueError (length_mismatch_message (length frame) (length new)))
      else Inr (zip new (map snd frame)))"

text \<open>
  \<open>pd.concat(parts, axis=1)\<close> for parts that carry the same index, which is how this
  function calls it: the columns of each row are put side by side. An empty list of
  parts raises \<open>ValueError\<close>.
\<close>

definition side_by_side :: "real list df \<Rightarrow> real list df \<Rightarrow> real list df" where
  "side_by_side p q = map (\<lambda>(r, s). (fst r, snd r @ snd s)) (zip p q)"

fun concat_axis1 :: "real list df list \<Rightarrow> error + real list df" where
  "concat_axis1 [] = Inl (ValueError ''No objects to concatenate'')"
| "concat_axis1 (p # ps) = Inr (foldl side_by_side p ps)"

text \<open>
  Lines 71 to 81, the discrete part: the number of candidates and the list of sampled
  parts after it. In \<open>self.sampling_n_points or math.ceil(...)\<close> the ceiling is
  evaluated only when \<open>sampling_n_points\<close> is \<open>None\<close> or \<open>0\<close>. \<open>sample_numerical_df\<close> is
  not part of these sources: it is the parameter \<open>sample_df\<close>, which may raise.
\<close>

definition discrete_part ::
  "(real list df \<Rightarrow> int \<Rightarrow> SamplingMethod \<Rightarrow> error + real list df)
     \<Rightarrow> qNegIntegratedPosteriorVariance \<Rightarrow> searchspace
     \<Rightarrow> error + (int option \<times> real list df list)" where
  "discrete_part sample_df self ss =
     (case discrete ss of
        None \<Rightarrow> Inr (None, [])
      | Some d \<Rightarrow>
          (let candidates_discrete = comp_rep d;
               ceiling_of_fraction =
                 (case float_of_nat (length candidates_discrete) of
                    Inl e \<Rightarrow> Inl e
                  | Inr len \<Rightarrow> math_ceil (float_mul (sampling_fraction self) len))
           in
           (case (case sampling_n_points self of
                    None \<Rightarrow> ceiling_of_fraction
                  | Some k \<Rightarrow> if k = 0 then ceiling_of_fraction else Inr k) of
              Inl e \<Rightarrow> Inl e
            | Inr n_candidates \<Rightarrow>
                (case sample_df candidates_discrete n_candidates (sampling_method self) of
                   Inl e \<Rightarrow> Inl e
                 | Inr sampled_disc \<Rightarrow> Inr (Some n_candidates, [sampled_disc])))))"

text \<open>
  Lines 84 to 98, the continuous part, from the number of candidates and the parts
  the discrete part left. \<open>samples_random\<close> of the continuous subspace is not part of
  these sources: it is the parameter \<open>samples_rnd\<close>, which may raise.
\<close>

definition continuous_part ::
  "(subspace_continuous \<Rightarrow> int \<Rightarrow> error + real list df)
     \<Rightarrow> qNegIntegratedPosteriorVariance \<Rightarrow> searchspace
     \<Rightarrow> int option \<Rightarrow> real list df list \<Rightarrow> error + real list df list" where
  "continuous_part samples_rnd self ss n_candidates sampled_parts =
     (case continuous ss of
        None \<Rightarrow> Inr sampled_parts
      | Some c \<Rightarrow>
          (case py_or n_candidates (sampling_n_points self) of
             None \<Rightarrow> Inl (ValueError sampling_n_points_message)
           | Some n \<Rightarrow>
               (case samples_rnd c n of
                  Inl e \<Rightarrow> Inl e
                | Inr sampled_conti \<Rightarrow>
                    (if length sampled_parts > 0
                     then (case set_index sampled_conti (labels (sampled_parts ! 0)) of
                             Inl e \<Rightarrow> Inl e
                           | Inr aligned \<Rightarrow> Inr (sampled_parts @ [aligned]))
                     else Inr (sampled_parts @ [sampled_conti])))))"

definition get_integration_points ::
  "(real list df \<Rightarrow> int \<Rightarrow> SamplingMethod \<Rightarrow> error + real list df)
     \<Rightarrow> (subspace_continuous \<Rightarrow> int \<Rightarrow> error + real list df)
     \<Rightarrow> qNegIntegratedPosteriorVariance \<Rightarrow> searchspace \<Rightarrow> error + real list df" where
  "get_integration_points sample_df samples_rnd self ss =
     (case discrete_part sample_df self ss of
        Inl e \<Rightarrow> Inl e
      | Inr (n_candidates, sampled_parts) \<Rightarrow>
          (case continuous_part samples_rnd self ss n_candidates sampled_parts of
             Inl e \<Rightarrow> Inl e
           | Inr parts \<Rightarrow> concat_axis1 parts))"

text \<open>
  Modelled from the spec: stand-ins for the two samplers at concrete inputs. The spec
  has \<open>sample_numerical_df\<close> return the requested number of rows of the table and
  \<open>samples_random(n)\<close> return a frame of \<open>n\<close> rows; the real ones draw at random, these
  take the first rows and the origin of a one-dimensional space.
\<close>

definition sample_first :: "real list df \<Rightarrow> int \<Rightarrow> SamplingMethod \<Rightarrow> error + real list df" where
  "sample_first frame n m = Inr (take (nat n) frame)"

definition samples_origin :: "subspace_continuous \<Rightarrow> int \<Rightarrow> error + real list df" where
  "samples_origin c n = Inr (map (\<lambda>i. (int i, [0])) [0..<nat n])"

text \<open>
  Modelled from the spec: a stand-in for the recommend callback of a concrete
  recommender at concrete inputs. The spec has the callback return the labels of
  \<open>batch_quantity\<close> selected candidates; this one selects the first candidates.
\<close>

definition recommend_first :: "searchspace \<Rightarrow> real list df \<Rightarrow> int \<Rightarrow> error + label list" where
  "recommend_first ss candidates_comp batch_quantity =
     Inr (take (nat batch_quantity) (labels candidates_comp))"

section \<open>Search spaces used at concrete inputs\<close>

text \<open>
  A discrete space of three rows, the first of which was recommended by an earlier
  call; its continuous part is empty.
\<close>

definition three_rows :: subspace_discrete where
  "three_rows =
     \<lparr>exp_rep = [(0, [''A'']), (1, [''B'']), (2, [''C''])],
      comp_rep = [(0, [0]), (1, [1]), (2, [2])],
      metadata =
        [(0, \<lparr>was_recommended = True, was_measured = False, dont_recommend = False\<rparr>),
         (1, \<lparr>was_recommended = False, was_measured = False, dont_recommend = False\<rparr>),
         (2, \<lparr>was_recommended = False, was_measured = False, dont_recommend = False\<rparr>)]\<rparr>"

definition discrete_space :: searchspace where
  "discrete_space = \<lparr>discrete = Some three_rows, continuous = Some \<lparr>empty = True\<rparr>\<rparr>"

text \<open>The same rows with a continuous part that is not empty.\<close>

definition hybrid_space :: searchspace where
  "hybrid_space = \<lparr>discrete = Some three_rows, continuous = Some \<lparr>empty = False\<rparr>\<rparr>"

text \<open>A purely continuous space, and a hybrid one whose discrete part has no row.\<close>

definition continuous_space :: searchspace where
  "continuous_space = \<lparr>discrete = None, continuous = Some \<lparr>empty = False\<rparr>\<rparr>"

definition no_rows :: subspace_discrete where
  "no_rows = \<lparr>exp_rep = [], comp_rep = [], metadata = []\<rparr>"

definition hybrid_space_no_rows :: searchspace where
  "hybrid_space_no_rows = \<lparr>discrete = Some no_rows, continuous = Some \<lparr>empty = False\<rparr>\<rparr>"

text \<open>A purely discrete space of \<open>n\<close> rows, numbered from 0.\<close>

definition numbered_rows :: "nat \<Rightarrow> subspace_discrete" where
  "numbered_rows n =
     \<lparr>exp_rep = map (\<lambda>i. (int i, [str_nat i])) [0..<n],
      comp_rep = map (\<lambda>i. (int i, [real i])) [0..<n],
      metadata = map (\<lambda>i. (int i, \<lparr>was_recommended = False, was_measured = False,
                                   dont_recommend = False\<rparr>)) [0..<n]\<rparr>"

definition numbered_space :: "nat \<Rightarrow> searchspace" where
  "numbered_space n = \<lparr>discrete = Some (numbered_rows n), continuous = None\<rparr>"

section \<open>Properties of the rounding\<close>

lemma floor_log2_eqI:
  assumes "0 < a" and "2 powi k \<le> a" and "a < 2 powi (k + 1)"
  shows "\<lfloor>log 2 a\<rfloor> = k"
proof -
  have "(2::real) powr real_of_int k = 2 powi k"
    using powr_real_of_int' [of 2 k] by simp
  moreover have "(2::real) powr (real_of_int k + 1) = 2 powi (k + 1)"
    using powr_real_of_int' [of 2 "k + 1"] by simp
  ultimately show ?thesis
    using floor_log_eq_powr_iff [of a 2 k] assms by simp
qed

lemma round_half_even_of_int [simp]: "round_half_even (of_int k) = k"
  by (simp add: round_half_even_def)

lemma round_half_even_bounds: "real_of_int (round_half_even y) \<le> y + 1 / 2" "y - 1 / 2 \<le> real_of_int (round_half_even y)"
  unfolding round_half_even_def by (auto; linarith)+

lemma quantum_eqI:
  assumes "x \<noteq> 0" and "2 powi k \<le> \<bar>x\<bar>" and "\<bar>x\<bar> < 2 powi (k + 1)"
  shows "quantum dt x = max (min_exponent dt) (k - (int (precision dt) - 1))"
  using floor_log2_eqI [of "\<bar>x\<bar>" k] assms by (simp add: quantum_def)

lemma round_to_eqI:
  assumes "x \<noteq> 0" and "2 powi k \<le> \<bar>x\<bar>" and "\<bar>x\<bar> < 2 powi (k + 1)"
    and "e = max (min_exponent dt) (k - (int (precision dt) - 1))"
    and "round_half_even (x / 2 powi e) = m"
  shows "round_to dt x = of_int m * 2 powi e"
  using quantum_eqI [OF assms(1,2,3), of dt] assms(1,4,5) by (simp add: round_to_def)

lemma ex_floor_log2:
  assumes "0 < (a::real)"
  shows "2 powi \<lfloor>log 2 a\<rfloor> \<le> a \<and> a < 2 powi (\<lfloor>log 2 a\<rfloor> + 1)"
proof -
  have "(2::real) powr real_of_int \<lfloor>log 2 a\<rfloor> = 2 powi \<lfloor>log 2 a\<rfloor>"
    using powr_real_of_int' [of 2 "\<lfloor>log 2 a\<rfloor>"] by simp
  moreover have "(2::real) powr (real_of_int \<lfloor>log 2 a\<rfloor> + 1) = 2 powi (\<lfloor>log 2 a\<rfloor> + 1)"
    using powr_real_of_int' [of 2 "\<lfloor>log 2 a\<rfloor> + 1"] by simp
  ultimately show ?thesis
    using floor_log_eq_powr_iff [of a 2 "\<lfloor>log 2 a\<rfloor>"] assms by simp
qed

lemma round_to_exact:
  assumes x: "x = of_int k * 2 powi j" and k: "\<bar>k\<bar> < 2 ^ precision dt"
    and j: "min_exponent dt \<le> j"
  shows "round_to dt x = x"
proof (cases "x = 0")
  case True
  then show ?thesis by (simp add: round_to_def)
next
  case False
  define e where "e = quantum dt x"
  have pos: "0 < \<bar>x\<bar>" using False by simp
  from ex_floor_log2 [OF pos] have low: "2 powi \<lfloor>log 2 \<bar>x\<bar>\<rfloor> \<le> \<bar>x\<bar>" by simp
  have "\<bar>x\<bar> = real_of_int \<bar>k\<bar> * 2 powi j"
    unfolding x by (simp add: abs_mult)
  also have "\<dots> < 2 ^ precision dt * 2 powi j"
  proof -
    from k have "real_of_int \<bar>k\<bar> < 2 ^ precision dt"
      by (metis of_int_less_iff of_int_numeral of_int_power)
    then show ?thesis by simp
  qed
  also have "\<dots> = 2 powi (int (precision dt) + j)"
    by (simp add: power_int_add)
  finally have up: "\<bar>x\<bar> < 2 powi (int (precision dt) + j)" .
  from low up have "(2::real) powi \<lfloor>log 2 \<bar>x\<bar>\<rfloor> < 2 powi (int (precision dt) + j)" by linarith
  then have "\<lfloor>log 2 \<bar>x\<bar>\<rfloor> < int (precision dt) + j"
    using power_int_increasing [of "int (precision dt) + j" "\<lfloor>log 2 \<bar>x\<bar>\<rfloor>" "2::real"]
    by (cases "\<lfloor>log 2 \<bar>x\<bar>\<rfloor> < int (precision dt) + j") auto
  with j have ej: "e \<le> j" by (simp add: e_def quantum_def)
  then obtain n where n: "j - e = int n" by (metis diff_ge_0_iff_ge nonneg_int_cases)
  have "x / 2 powi e = of_int k * 2 powi (j - e)"
    unfolding x by (simp add: power_int_diff)
  also have "\<dots> = of_int (k * 2 ^ n)" by (simp add: n)
  finally have q: "x / 2 powi e = of_int (k * 2 ^ n)" .
  have "round_half_even (x / 2 powi e) = k * 2 ^ n"
    unfolding q by (rule round_half_even_of_int)
  then have "round_to dt x = of_int (k * 2 ^ n) * 2 powi e"
    using False unfolding round_to_def e_def [symmetric] by (simp only: if_False)
  also have "\<dots> = x" using q by (simp add: field_simps)
  finally show ?thesis .
qed


lemma to_float_exact:
  assumes "x = of_int k * 2 powi j" and "\<bar>k\<bar> < 2 ^ precision dt" and "min_exponent dt \<le> j"
    and "\<bar>x\<bar> < 2 ^ overflow_exponent dt"
  shows "to_float dt x = Finite x"
  using round_to_exact [OF assms(1,2,3)] assms(4) by (simp add: to_float_def)




lemma round_to_float64_bound:
  assumes "0 < x" and "x \<le> 2 ^ 53"
  shows "0 \<le> round_to float64 x \<and> round_to float64 x \<le> 2 ^ 53 + 1"
proof -
  define e where "e = quantum float64 x"
  define m where "m = round_half_even (x / 2 powi e)"
  have r: "round_to float64 x = of_int m * 2 powi e"
    using assms(1) by (simp add: round_to_def e_def m_def)
  have pos: "0 < \<bar>x\<bar>" using assms(1) by simp
  from ex_floor_log2 [OF pos] assms have "2 powi \<lfloor>log 2 \<bar>x\<bar>\<rfloor> \<le> (2::real) powi 53" by simp
  then have "\<lfloor>log 2 \<bar>x\<bar>\<rfloor> \<le> 53"
    using power_int_strict_increasing [of 53 "\<lfloor>log 2 \<bar>x\<bar>\<rfloor>" "2::real"]
    by (cases "\<lfloor>log 2 \<bar>x\<bar>\<rfloor> \<le> 53") auto
  then have e1: "e \<le> 1" by (simp add: e_def quantum_def)
  then have "(2::real) powi e \<le> 2 powi 1" by (intro power_int_increasing) simp_all
  then have pe: "(2::real) powi e \<le> 2" by simp
  have pe0: "0 < (2::real) powi e" by simp
  from round_half_even_bounds [of "x / 2 powi e"]
  have up: "real_of_int m \<le> x / 2 powi e + 1 / 2" and low: "x / 2 powi e - 1 / 2 \<le> real_of_int m"
    unfolding m_def by simp_all
  from up have "real_of_int m * 2 powi e \<le> (x / 2 powi e + 1 / 2) * 2 powi e"
    using pe0 by (simp only: mult_le_cancel_right_pos)
  also have "\<dots> = x + 2 powi e / 2" using pe0 by (simp add: field_simps)
  also have "\<dots> \<le> x + 1" using pe by simp
  finally have a: "round_to float64 x \<le> 2 ^ 53 + 1" using assms(2) unfolding r by linarith
  have "0 < x / 2 powi e" using assms(1) pe0 by simp
  with low have "- 1 < real_of_int m" by linarith
  then have "0 \<le> m" by linarith
  then have "0 \<le> real_of_int m * 2 powi e" by simp
  with a show ?thesis unfolding r by simp
qed

lemma float_of_nat_exact:
  assumes "n < 2 ^ 53"
  shows "float_of_nat n = Inr (Finite (real n))"
proof -
  have "to_float float64 (real_of_int (int n)) = Finite (real_of_int (int n))"
  proof (rule to_float_exact [where k = "int n" and j = 0])
    show "real_of_int (int n) = real_of_int (int n) * 2 powi 0" by simp
    from assms have "int n < int (2 ^ 53)" by (simp only: of_nat_less_iff)
    then show "\<bar>int n\<bar> < 2 ^ precision float64" by simp
    show "min_exponent float64 \<le> 0" by simp
    from assms have "real n < real (2 ^ 53)" by (simp only: of_nat_less_iff)
    then have "real n < 2 ^ 53" by simp
    moreover have "(2::real) ^ 53 \<le> 2 ^ 1024" by (intro power_increasing) simp_all
    ultimately show "\<bar>real_of_int (int n)\<bar> < 2 ^ overflow_exponent float64" by simp
  qed
  then show ?thesis by (simp add: float_of_nat_def)
qed

lemma ceil_of_product:
  assumes "0 < f" and "f \<le> 1" and "n < 2 ^ 53"
  shows "(case float_of_nat n of Inl e \<Rightarrow> Inl e | Inr len \<Rightarrow> math_ceil (float_mul (Finite f) len))
           = Inr \<lceil>round_to float64 (f * real n)\<rceil>"
proof -
  have fin: "to_float float64 (f * real n) = Finite (round_to float64 (f * real n))"
  proof (cases "n = 0")
    case True
    then show ?thesis by (simp add: to_float_def round_to_def)
  next
    case False
    from assms(3) have "real n < real (2 ^ 53)" by (simp only: of_nat_less_iff)
    then have n: "real n < 2 ^ 53" by simp
    have "f * real n \<le> 1 * real n" using assms(2) by (intro mult_right_mono) simp_all
    with n have le: "f * real n \<le> 2 ^ 53" by simp
    have "0 < f * real n" using assms(1) False by simp
    from round_to_float64_bound [OF this le]
    have "\<bar>round_to float64 (f * real n)\<bar> \<le> 2 ^ 53 + 1" by simp
    moreover have "(2::real) ^ 53 + 1 < 2 ^ 1024"
    proof -
      have "(2::real) ^ 53 + 1 < 2 ^ 54" by simp
      also have "\<dots> \<le> 2 ^ 1024" by (intro power_increasing) simp_all
      finally show ?thesis .
    qed
    ultimately show ?thesis by (simp add: to_float_def)
  qed
  then show ?thesis by (simp add: float_of_nat_exact [OF assms(3)])
qed

section \<open>Properties of ColumnTransformer\<close>

lemma set_combinations2:
  "set (combinations2 xs) = {(xs ! i, xs ! j) | i j. i < j \<and> j < length xs}"
proof (induction xs)
  case Nil
  then show ?case by simp
next
  case (Cons x xs)
  have "{((x # xs) ! i, (x # xs) ! j) | i j. i < j \<and> j < length (x # xs)}
        = Pair x ` set xs \<union> {(xs ! i, xs ! j) | i j. i < j \<and> j < length xs}"
    (is "?L = ?R")
  proof (intro set_eqI iffI)
    fix p assume "p \<in> ?L"
    then obtain i j where p: "p = ((x # xs) ! i, (x # xs) ! j)" and ij: "i < j" "j < Suc (length xs)"
      by auto
    from ij obtain j' where j': "j = Suc j'" "j' < length xs" by (cases j) auto
    show "p \<in> ?R"
    proof (cases i)
      case 0
      with p j' show ?thesis by auto
    next
      case (Suc i')
      with p j' ij show ?thesis by auto
    qed
  next
    fix p assume "p \<in> ?R"
    then consider y where "y \<in> set xs" "p = (x, y)"
      | i j where "i < j" "j < length xs" "p = (xs ! i, xs ! j)" by auto
    then show "p \<in> ?L"
    proof cases
      case 1
      then obtain k where "k < length xs" "xs ! k = y" by (auto simp: in_set_conv_nth)
      with 1 have "p = ((x # xs) ! 0, (x # xs) ! Suc k) \<and> 0 < Suc k \<and> Suc k < length (x # xs)"
        by simp
      then show ?thesis by blast
    next
      case 2
      then have "p = ((x # xs) ! Suc i, (x # xs) ! Suc j) \<and> Suc i < Suc j \<and> Suc j < length (x # xs)"
        by simp
      then show ?thesis by blast
    qed
  qed
  with Cons show ?case by simp
qed

lemma check_pairs_Inr:
  "(check_pairs ps = Inr ()) = (\<forall>p \<in> set ps. isdisjoint (fst p) (snd p))"
  by (induction ps rule: check_pairs.induct) auto

lemma check_pairs_Inl:
  "check_pairs ps = Inl e \<Longrightarrow>
     \<exists>x y. (x, y) \<in> set ps \<and> \<not> isdisjoint x y \<and> e = ValueError (not_disjoint_message x y)"
  by (induction ps rule: check_pairs.induct) (auto split: if_splits)

lemma validate_mapping_is_disjoint_Inr:
  "(validate_mapping_is_disjoint value = Inr ()) =
     (\<forall>i j. i < j \<and> j < length value \<longrightarrow> isdisjoint (fst (value ! i)) (fst (value ! j)))"
  unfolding validate_mapping_is_disjoint_def check_pairs_Inr set_combinations2
  by (auto simp: nth_map) (metis nth_map order.strict_trans)

lemma validate_mapping_is_disjoint_Inl:
  assumes "validate_mapping_is_disjoint value = Inl e"
  shows "\<exists>i j. i < j \<and> j < length value \<and> \<not> isdisjoint (fst (value ! i)) (fst (value ! j))
           \<and> e = ValueError (not_disjoint_message (fst (value ! i)) (fst (value ! j)))"
proof -
  from assms obtain x y where xy: "(x, y) \<in> set (combinations2 (map fst value))"
      "\<not> isdisjoint x y" "e = ValueError (not_disjoint_message x y)"
    unfolding validate_mapping_is_disjoint_def by (blast dest: check_pairs_Inl)
  from xy(1) obtain i j where "i < j" "j < length value" "x = map fst value ! i" "y = map fst value ! j"
    unfolding set_combinations2 by auto
  with xy show ?thesis by (auto simp: nth_map)
qed

text \<open>
  Claim C8. A mapping whose key tuples are pairwise disjoint and whose values are
  transform objects is accepted, and the object holds the mapping. A mapping with two
  key tuples that share a column index is refused; when its values are transform
  objects the error is the \<open>ValueError\<close> whose message names two overlapping key
  tuples of the mapping, the first such pair in the order of \<open>itertools.combinations\<close>.
  The keys are taken by their position, so the statement covers every association
  list, and with it every dict.
\<close>

theorem ColumnTransformer_init_disjoint:
  "(list_all (\<lambda>kv. is_transform (snd kv)) value
      \<and> (\<forall>i j. i < j \<and> j < length value \<longrightarrow> isdisjoint (fst (value ! i)) (fst (value ! j)))
      \<longrightarrow> ColumnTransformer_init is_transform value = Inr \<lparr>mapping = value\<rparr>)
   \<and> ((\<exists>i j. i < j \<and> j < length value \<and> \<not> isdisjoint (fst (value ! i)) (fst (value ! j)))
      \<longrightarrow> (\<exists>e. ColumnTransformer_init is_transform value = Inl e)
        \<and> (list_all (\<lambda>kv. is_transform (snd kv)) value
             \<longrightarrow> (\<exists>i j. i < j \<and> j < length value
                    \<and> \<not> isdisjoint (fst (value ! i)) (fst (value ! j))
                    \<and> ColumnTransformer_init is_transform value
                        = Inl (ValueError (not_disjoint_message (fst (value ! i)) (fst (value ! j)))))))"
proof (intro conjI impI)
  assume "list_all (\<lambda>kv. is_transform (snd kv)) value
      \<and> (\<forall>i j. i < j \<and> j < length value \<longrightarrow> isdisjoint (fst (value ! i)) (fst (value ! j)))"
  then show "ColumnTransformer_init is_transform value = Inr \<lparr>mapping = value\<rparr>"
    using validate_mapping_is_disjoint_Inr [of "value"]
    by (simp add: ColumnTransformer_init_def validate_mapping_types_lazily_def)
next
  assume ov: "\<exists>i j. i < j \<and> j < length value \<and> \<not> isdisjoint (fst (value ! i)) (fst (value ! j))"
  then have "validate_mapping_is_disjoint value \<noteq> Inr ()"
    using validate_mapping_is_disjoint_Inr [of "value"] by blast
  then obtain e where e: "validate_mapping_is_disjoint value = Inl e"
    by (cases "validate_mapping_is_disjoint value") auto
  then show "\<exists>e. ColumnTransformer_init is_transform value = Inl e"
    by (simp add: ColumnTransformer_init_def validate_mapping_types_lazily_def)
  assume "list_all (\<lambda>kv. is_transform (snd kv)) value"
  with e validate_mapping_is_disjoint_Inl [OF e]
  show "\<exists>i j. i < j \<and> j < length value
          \<and> \<not> isdisjoint (fst (value ! i)) (fst (value ! j))
          \<and> ColumnTransformer_init is_transform value
              = Inl (ValueError (not_disjoint_message (fst (value ! i)) (fst (value ! j))))"
    by (auto simp: ColumnTransformer_init_def validate_mapping_types_lazily_def)
qed

theorem ColumnTransformer_init_disjoint_witness:
  "ColumnTransformer_init (\<lambda>v. v) [([0, 1], True), ([2], True)]
     = Inr \<lparr>mapping = [([0, 1], True), ([2], True)]\<rparr>
   \<and> ColumnTransformer_init (\<lambda>v. v) [([0, 1], True), ([1, 2], True)]
     = Inl (ValueError ''The provided column specifications (0, 1) and (1, 2) are not disjoint.'')"
proof -
  let ?good = "[([0, 1], True), ([2], True)] :: (int list \<times> bool) list"
  let ?bad = "[([0, 1], True), ([1, 2], True)] :: (int list \<times> bool) list"
  have types: "list_all (\<lambda>kv. snd kv) ?good" "list_all (\<lambda>kv. snd kv) ?bad"
    by simp_all
  have disj: "\<forall>i j. i < j \<and> j < length ?good \<longrightarrow> isdisjoint (fst (?good ! i)) (fst (?good ! j))"
    by (auto simp: isdisjoint_def less_Suc_eq)
  have overlap: "\<exists>i j. i < j \<and> j < length ?bad \<and> \<not> isdisjoint (fst (?bad ! i)) (fst (?bad ! j))"
    by (intro exI [of _ 0] exI [of _ 1]) (simp add: isdisjoint_def)
  from ColumnTransformer_init_disjoint [of "\<lambda>v. v" ?good] types(1) disj
  have good: "ColumnTransformer_init (\<lambda>v. v) ?good = Inr \<lparr>mapping = ?good\<rparr>"
    by blast
  from ColumnTransformer_init_disjoint [of "\<lambda>v. v" ?bad] types(2) overlap
  obtain i j where ij: "i < j" "j < length ?bad"
    and err: "ColumnTransformer_init (\<lambda>v. v) ?bad
                = Inl (ValueError (not_disjoint_message (fst (?bad ! i)) (fst (?bad ! j))))"
    by blast
  from ij have "i = 0" "j = 1" by simp_all
  with err have "ColumnTransformer_init (\<lambda>v. v) ?bad
                = Inl (ValueError (not_disjoint_message [0, 1] [1, 2]))"
    by simp
  then have bad: "ColumnTransformer_init (\<lambda>v. v) ?bad
     = Inl (ValueError ''The provided column specifications (0, 1) and (1, 2) are not disjoint.'')"
    by (simp add: not_disjoint_message_def repr_tuple_def str_int_def str_nat.simps)
  from good bad show ?thesis by blast
qed

section \<open>Properties of MeanPredictionSurrogate\<close>







section \<open>Properties of select\_candidates\_and\_recommend\<close>

lemma filter_label_unique:
  "distinct (map fst df) \<Longrightarrow> i \<in> set (map fst df) \<Longrightarrow>
     filter (\<lambda>r. fst r = i) df = [(i, the (map_of df i))]"
proof (induction df)
  case Nil
  then show ?case by simp
next
  case (Cons r df)
  show ?case
  proof (cases "fst r = i")
    case True
    with Cons.prems have "filter (\<lambda>r. fst r = i) df = []"
      by (force simp: filter_empty_conv image_iff)
    with True show ?thesis by (cases r) simp
  next
    case False
    with Cons show ?thesis by (cases r) auto
  qed
qed

lemma loc_rows_unique:
  assumes "distinct (labels df)" and "set idxs \<subseteq> set (labels df)"
  shows "loc_rows df idxs = Inr (map (\<lambda>i. (i, the (map_of df i))) idxs)"
proof -
  have "concat (map (\<lambda>i. filter (\<lambda>r. fst r = i) df) idxs) = map (\<lambda>i. (i, the (map_of df i))) idxs"
    using assms(2)
  proof (induction idxs)
    case Nil
    then show ?case by simp
  next
    case (Cons i idxs)
    then show ?case
      using filter_label_unique [of df i] assms(1) by (simp add: labels_def)
  qed
  moreover have "list_all (\<lambda>i. i \<in> set (labels df)) idxs"
    using assms(2) by (auto simp: list_all_iff)
  ultimately show ?thesis by (simp add: loc_rows_def)
qed

lemma loc_rows_rows_in_frame:
  assumes "distinct (labels df)" and "set idxs \<subseteq> set (labels df)"
  shows "set (map (\<lambda>i. (i, the (map_of df i))) idxs) \<subseteq> set df"
proof
  fix r assume "r \<in> set (map (\<lambda>i. (i, the (map_of df i))) idxs)"
  then obtain i where i: "i \<in> set idxs" "r = (i, the (map_of df i))" by auto
  with assms(2) have "i \<in> fst ` set df" by (auto simp: labels_def)
  then obtain v where "map_of df i = Some v"
    by (metis domD dom_map_of_conv_image_fst)
  with i show "r \<in> set df" by (auto dest: map_of_SomeD)
qed

lemma loc_set_was_recommended_Inr:
  assumes "set idxs \<subseteq> set (labels md)"
  shows "loc_set_was_recommended md idxs
           = Inr (map (\<lambda>r. if fst r \<in> set idxs
                            then (fst r, (snd r)\<lparr>was_recommended := True\<rparr>) else r) md)"
  using assms by (auto simp: loc_set_was_recommended_def list_all_iff)

lemma marked_labels:
  "labels (map (\<lambda>r. if fst r \<in> S then (fst r, (snd r)\<lparr>was_recommended := True\<rparr>) else r) md)
     = labels md"
  by (induction md) (auto simp: labels_def)

lemma marked_recommended:
  "set (labels (filter (\<lambda>r. was_recommended (snd r))
          (map (\<lambda>r. if fst r \<in> S then (fst r, (snd r)\<lparr>was_recommended := True\<rparr>) else r) md)))
     = set (labels (filter (\<lambda>r. was_recommended (snd r)) md)) \<union> (S \<inter> set (labels md))"
  by (induction md) (auto simp: labels_def)

text \<open>
  Claim C1. (as amended) Let the candidates be fetched, let \<open>batch_quantity\<close> be at
  most their number, and let the callback return \<open>batch_quantity\<close> pairwise distinct
  labels of candidates. Let every candidate label be a label of the experimental
  representation and of the metadata (the invariant of the data model), and let the
  labels of the experimental representation be unique. Then the call returns exactly
  \<open>batch_quantity\<close> distinct rows of the experimental representation, those of the
  selected labels, and after the call \<open>was_recommended\<close> is set for exactly the rows
  that were returned together with the rows for which it was set before the call. The
  labels of the metadata and its two other flags are unchanged.
\<close>

theorem select_candidates_and_recommend_success:
  assumes cands: "filtered_candidates get_cands ss ar am = Inr cands"
    and d: "discrete ss = Some d"
    and enough: "bq \<le> int (length cands)"
    and callback: "recommend ss cands bq = Inr idxs"
    and len: "int (length idxs) = bq"
    and dist: "distinct idxs"
    and drawn: "set idxs \<subseteq> set (labels cands)"
    and inv_exp: "set (labels cands) \<subseteq> set (labels (exp_rep d))"
    and inv_meta: "set (labels cands) \<subseteq> set (labels (metadata d))"
    and uniq: "distinct (labels (exp_rep d))"
  shows "\<exists>rec md.
           select_candidates_and_recommend get_cands ss recommend bq ar am
             = (Inr rec, ss\<lparr>discrete := Some (d\<lparr>metadata := md\<rparr>)\<rparr>)
           \<and> int (length rec) = bq \<and> distinct rec \<and> set rec \<subseteq> set (exp_rep d)
           \<and> labels rec = idxs
           \<and> labels md = labels (metadata d)
           \<and> set (recommended_labels (ss\<lparr>discrete := Some (d\<lparr>metadata := md\<rparr>)\<rparr>))
               = set (recommended_labels ss) \<union> set (labels rec)
           \<and> map (was_measured \<circ> snd) md = map (was_measured \<circ> snd) (metadata d)
           \<and> map (dont_recommend \<circ> snd) md = map (dont_recommend \<circ> snd) (metadata d)"
proof -
  let ?rec = "map (\<lambda>i. (i, the (map_of (exp_rep d) i))) idxs"
  let ?md = "map (\<lambda>r. if fst r \<in> set idxs
                        then (fst r, (snd r)\<lparr>was_recommended := True\<rparr>) else r) (metadata d)"
  from drawn inv_exp inv_meta have in_exp: "set idxs \<subseteq> set (labels (exp_rep d))"
    and in_meta: "set idxs \<subseteq> set (labels (metadata d))" by auto
  have rows: "loc_rows (exp_rep d) idxs = Inr ?rec"
    using uniq in_exp by (rule loc_rows_unique)
  have mark: "loc_set_was_recommended (metadata d) idxs = Inr ?md"
    using in_meta by (rule loc_set_was_recommended_Inr)
  have run: "select_candidates_and_recommend get_cands ss recommend bq ar am
               = (Inr ?rec, ss\<lparr>discrete := Some (d\<lparr>metadata := ?md\<rparr>)\<rparr>)"
    using cands d enough callback rows mark
    by (simp add: select_candidates_and_recommend_def recommend_and_mark_def)
  have lab: "labels ?rec = idxs"
    by (simp add: labels_def comp_def)
  have cnt: "int (length ?rec) = bq" using len by simp
  have "distinct (map fst ?rec)" using dist by (simp add: comp_def)
  then have drec: "distinct ?rec" by (rule distinct_map [THEN iffD1, THEN conjunct1])
  have sub: "set ?rec \<subseteq> set (exp_rep d)"
    using uniq in_exp by (rule loc_rows_rows_in_frame)
  have mlab: "labels ?md = labels (metadata d)" by (rule marked_labels)
  have flagged: "set (recommended_labels (ss\<lparr>discrete := Some (d\<lparr>metadata := ?md\<rparr>)\<rparr>))
               = set (recommended_labels ss) \<union> set (labels ?rec)"
    using d in_meta marked_recommended [of "set idxs" "metadata d"] lab
    by (auto simp: recommended_labels_def metadata_of_def)
  have other: "map (was_measured \<circ> snd) ?md = map (was_measured \<circ> snd) (metadata d)"
      "map (dont_recommend \<circ> snd) ?md = map (dont_recommend \<circ> snd) (metadata d)"
    by (induction "metadata d") auto
  from run cnt drec sub lab mlab flagged other show ?thesis by blast
qed

theorem select_candidates_and_recommend_success_witness:
  "filtered_candidates get_candidates discrete_space False True = Inr [(1, [1]), (2, [2])]
   \<and> discrete discrete_space = Some three_rows
   \<and> recommend_first discrete_space [(1, [1]), (2, [2])] 2 = Inr [1, 2]
   \<and> (\<exists>rec md.
         select_candidates_and_recommend get_candidates discrete_space recommend_first 2 False True
           = (Inr rec, discrete_space\<lparr>discrete := Some (three_rows\<lparr>metadata := md\<rparr>)\<rparr>)
         \<and> int (length rec) = 2 \<and> distinct rec \<and> set rec \<subseteq> set (exp_rep three_rows)
         \<and> labels rec = [1, 2]
         \<and> labels md = labels (metadata three_rows)
         \<and> set (recommended_labels
                  (discrete_space\<lparr>discrete := Some (three_rows\<lparr>metadata := md\<rparr>)\<rparr>))
             = set (recommended_labels discrete_space) \<union> set (labels rec)
         \<and> map (was_measured \<circ> snd) md = map (was_measured \<circ> snd) (metadata three_rows)
         \<and> map (dont_recommend \<circ> snd) md = map (dont_recommend \<circ> snd) (metadata three_rows))"
proof -
  let ?cands = "[(1, [1]), (2, [2])] :: real list df"
  have cands: "filtered_candidates get_candidates discrete_space False True = Inr ?cands"
    by (simp add: discrete_space_def three_rows_def filtered_candidates_def
          flag_or_continuous_def get_candidates_def is_candidate_def excluded_def)
  have d: "discrete discrete_space = Some three_rows"
    by (simp add: discrete_space_def)
  have enough: "(2::int) \<le> int (length ?cands)" by simp
  have callback: "recommend_first discrete_space ?cands 2 = Inr [1, 2]"
    by (simp add: recommend_first_def labels_def)
  have len: "int (length [1, 2 :: label]) = 2" by simp
  have dist: "distinct [1, 2 :: label]" by simp
  have drawn: "set [1, 2 :: label] \<subseteq> set (labels ?cands)" by (simp add: labels_def)
  have inv_exp: "set (labels ?cands) \<subseteq> set (labels (exp_rep three_rows))"
    by (simp add: labels_def three_rows_def)
  have inv_meta: "set (labels ?cands) \<subseteq> set (labels (metadata three_rows))"
    by (simp add: labels_def three_rows_def)
  have uniq: "distinct (labels (exp_rep three_rows))"
    by (simp add: labels_def three_rows_def)
  note inst = select_candidates_and_recommend_success
    [of get_candidates discrete_space False True ?cands three_rows 2 recommend_first "[1, 2]"]
  from inst [OF cands d enough callback len dist drawn inv_exp inv_meta uniq]
    cands d callback
  show ?thesis by simp
qed

text \<open>
  Claim C1 as the spec words it, that after the call \<open>was_recommended\<close> is set for
  exactly the returned rows, fails on a search space that has been recommended from
  before: row 0 carries the flag from an earlier call and is no candidate, the call
  returns row 1, and afterwards the flag is set for the rows 0 and 1.
\<close>

theorem flags_accumulate_counterexample:
  "filtered_candidates get_candidates discrete_space False True = Inr [(1, [1]), (2, [2])]
   \<and> recommend_first discrete_space [(1, [1]), (2, [2])] 1 = Inr [1]
   \<and> fst (select_candidates_and_recommend get_candidates discrete_space recommend_first 1 False True)
       = Inr [(1, [''B''])]
   \<and> recommended_labels
        (snd (select_candidates_and_recommend get_candidates discrete_space recommend_first 1 False True))
       = [0, 1]
   \<and> set (recommended_labels
        (snd (select_candidates_and_recommend get_candidates discrete_space recommend_first 1 False True)))
       \<noteq> set (labels [(1, [''B''])])"
  by (simp add: discrete_space_def three_rows_def select_candidates_and_recommend_def
        filtered_candidates_def flag_or_continuous_def recommend_and_mark_def
        get_candidates_def is_candidate_def excluded_def recommend_first_def labels_def
        loc_rows_def loc_set_was_recommended_def recommended_labels_def metadata_of_def)

text \<open>
  Claim C2. When the candidates are fetched and are fewer than \<open>batch_quantity\<close>, the
  call raises \<open>NotEnoughPointsLeftError\<close> and the search space, its metadata included,
  is the one before the call. More generally every call that raises leaves the search
  space as it was: the metadata is written last, after the selection has succeeded.
\<close>

theorem not_enough_points_leaves_metadata:
  "(filtered_candidates get_cands ss ar am = Inr cands \<and> int (length cands) < bq
      \<longrightarrow> select_candidates_and_recommend get_cands ss recommend bq ar am
            = (Inl (NotEnoughPointsLeftError (not_enough_points_message bq)), ss))
   \<and> (fst (select_candidates_and_recommend get_cands ss recommend bq ar am) = Inl e
      \<longrightarrow> snd (select_candidates_and_recommend get_cands ss recommend bq ar am) = ss)"
  by (auto simp: select_candidates_and_recommend_def recommend_and_mark_def
           split: sum.splits option.splits if_splits)

theorem not_enough_points_leaves_metadata_witness:
  "filtered_candidates get_candidates discrete_space False True = Inr [(1, [1]), (2, [2])]
   \<and> int (length ([(1, [1]), (2, [2])] :: real list df)) < 3
   \<and> select_candidates_and_recommend get_candidates discrete_space recommend_first 3 False True
       = (Inl (NotEnoughPointsLeftError (not_enough_points_message 3)), discrete_space)
   \<and> snd (select_candidates_and_recommend get_candidates discrete_space recommend_first 3 False True)
       = discrete_space"
proof -
  let ?cands = "[(1, [1]), (2, [2])] :: real list df"
  have cands: "filtered_candidates get_candidates discrete_space False True = Inr ?cands"
    by (simp add: discrete_space_def three_rows_def filtered_candidates_def
          flag_or_continuous_def get_candidates_def is_candidate_def excluded_def)
  have few: "int (length ?cands) < 3" by simp
  note inst = not_enough_points_leaves_metadata
    [of get_candidates discrete_space False True ?cands 3 recommend_first
        "NotEnoughPointsLeftError (not_enough_points_message 3)"]
  from inst cands few
  have run: "select_candidates_and_recommend get_candidates discrete_space recommend_first 3 False True
       = (Inl (NotEnoughPointsLeftError (not_enough_points_message 3)), discrete_space)"
    by blast
  then have "fst (select_candidates_and_recommend get_candidates discrete_space recommend_first 3
                False True) = Inl (NotEnoughPointsLeftError (not_enough_points_message 3))"
    by simp
  with inst have "snd (select_candidates_and_recommend get_candidates discrete_space recommend_first 3
                False True) = discrete_space"
    by blast
  with cands few run show ?thesis by blast
qed

text \<open>
  Claim C3. For a search space with a discrete part and a continuous part object,
  the candidates are those \<open>get_candidates\<close> returns for the caller's
  \<open>allow_repeated_recommendations\<close> or-ed with the continuous part being not empty and
  the caller's \<open>allow_recommending_already_measured\<close> or-ed with the same; the rest of
  the call runs on these candidates. With a continuous part that is not empty the call
  is the same as with both flags true.
\<close>

theorem candidate_filter_flags:
  assumes "discrete ss = Some d" and "continuous ss = Some c"
  shows "filtered_candidates get_cands ss ar am
           = Inr (snd (get_cands d (ar \<or> \<not> empty c) (am \<or> \<not> empty c)))
         \<and> select_candidates_and_recommend get_cands ss recommend bq ar am
           = recommend_and_mark recommend ss
               (snd (get_cands d (ar \<or> \<not> empty c) (am \<or> \<not> empty c))) bq
         \<and> (\<not> empty c \<longrightarrow>
              select_candidates_and_recommend get_cands ss recommend bq ar am
                = select_candidates_and_recommend get_cands ss recommend bq True True)"
  using assms
  by (auto simp: select_candidates_and_recommend_def filtered_candidates_def
        flag_or_continuous_def)

theorem candidate_filter_flags_witness:
  "discrete hybrid_space = Some three_rows
   \<and> continuous hybrid_space = Some \<lparr>empty = False\<rparr>
   \<and> filtered_candidates get_candidates hybrid_space False False
       = Inr [(0, [0]), (1, [1]), (2, [2])]
   \<and> filtered_candidates get_candidates discrete_space False False = Inr [(1, [1]), (2, [2])]
   \<and> select_candidates_and_recommend get_candidates hybrid_space recommend_first 3 False False
       = select_candidates_and_recommend get_candidates hybrid_space recommend_first 3 True True"
proof -
  have d: "discrete hybrid_space = Some three_rows"
    and c: "continuous hybrid_space = Some \<lparr>empty = False\<rparr>"
    by (simp_all add: hybrid_space_def)
  have d': "discrete discrete_space = Some three_rows"
    and c': "continuous discrete_space = Some \<lparr>empty = True\<rparr>"
    by (simp_all add: discrete_space_def)
  note inst = candidate_filter_flags [OF d c, of get_candidates False False recommend_first 3]
  from inst have a: "filtered_candidates get_candidates hybrid_space False False
          = Inr [(0, [0]), (1, [1]), (2, [2])]"
    by (simp add: three_rows_def get_candidates_def is_candidate_def excluded_def)
  have "\<not> empty \<lparr>empty = False\<rparr>" by simp
  with inst
  have b: "select_candidates_and_recommend get_candidates hybrid_space recommend_first 3 False False
       = select_candidates_and_recommend get_candidates hybrid_space recommend_first 3 True True"
    by blast
  from candidate_filter_flags [OF d' c', of get_candidates False False recommend_first 3]
  have "filtered_candidates get_candidates discrete_space False False = Inr [(1, [1]), (2, [2])]"
    by (simp add: three_rows_def get_candidates_def is_candidate_def excluded_def)
  with a b have "filtered_candidates get_candidates hybrid_space False False
          = Inr [(0, [0]), (1, [1]), (2, [2])]
     \<and> filtered_candidates get_candidates discrete_space False False = Inr [(1, [1]), (2, [2])]
     \<and> select_candidates_and_recommend get_candidates hybrid_space recommend_first 3 False False
       = select_candidates_and_recommend get_candidates hybrid_space recommend_first 3 True True"
    by blast
  with d c show ?thesis by blast
qed

section \<open>Properties of BayesianRecommender.get\_acquisition\_function\_cls\<close>

text \<open>
  Claim C4. For the keys \<open>UCB\<close> and \<open>qUCB\<close> the constructor handed to
  \<open>debotorchize\<close> is the partial of the botorch class with the keyword \<open>beta\<close> preset to
  1. A call of that partial without a keyword \<open>beta\<close> passes \<open>beta = 1\<close> to the class;
  a call with a keyword \<open>beta\<close> passes the caller's value.
\<close>

theorem ucb_family_default_beta:
  assumes "acquisition_function_cls self = ''UCB'' \<or> acquisition_function_cls self = ''qUCB''"
  shows "\<exists>c. c = (if acquisition_function_cls self = ''UCB'' then botorch_UpperConfidenceBound
                   else botorch_qUpperConfidenceBound)
           \<and> get_acquisition_function_cls debotorchize self
               = Inr (debotorchize (Partial c [(''beta'', 1)]))
           \<and> call_keywords (Partial c [(''beta'', 1)]) [] = (c, [''beta'' \<mapsto> 1])
           \<and> (\<forall>kwargs. snd (call_keywords (Partial c [(''beta'', 1)]) kwargs) ''beta''
                 = (case map_of kwargs ''beta'' of None \<Rightarrow> Some 1 | Some b \<Rightarrow> Some b))"
  using assms
  by (auto simp: get_acquisition_function_cls_def acqf_mapping_def map_add_def split: option.splits)

theorem ucb_family_default_beta_witness:
  "get_acquisition_function_cls (\<lambda>c. c) \<lparr>surrogate_model_cls = ''GP'', acquisition_function_cls = ''UCB''\<rparr>
     = Inr (Partial botorch_UpperConfidenceBound [(''beta'', 1)])
   \<and> snd (call_keywords (Partial botorch_UpperConfidenceBound [(''beta'', 1)]) []) ''beta'' = Some 1
   \<and> snd (call_keywords (Partial botorch_UpperConfidenceBound [(''beta'', 1)]) [(''beta'', 3)]) ''beta'' = Some 3"
  using ucb_family_default_beta [of "\<lparr>surrogate_model_cls = ''GP'', acquisition_function_cls = ''UCB''\<rparr>" "\<lambda>c. c"]
  by simp

section \<open>Properties of the acquisition functions\<close>

text \<open>
  Claim C9. Constructing either class of the upper confidence bound with
  \<open>beta = -0.1\<close> raises the \<open>ValueError\<close> of the validator \<open>ge(0.0)\<close>, and with
  \<open>beta = 0\<close> or \<open>beta = 2.5\<close> it succeeds with that value. Constructing
  \<open>qNegIntegratedPosteriorVariance\<close> with a \<open>sampling_fraction\<close> that is not a finite
  number in the interval (0, 1] raises \<open>ValueError\<close>, and so does a
  \<open>sampling_n_points\<close> that is an integer not above 0.
\<close>

theorem hyperparameter_validation:
  "UpperConfidenceBound_init (Some (Finite (- (1 / 10)))) = Inl (range_error ''beta'' ''>='' ''0.0'')
   \<and> qUpperConfidenceBound_init (Some (Finite (- (1 / 10)))) = Inl (range_error ''beta'' ''>='' ''0.0'')
   \<and> UpperConfidenceBound_init (Some (Finite 0)) = Inr (UpperConfidenceBound (Finite 0))
   \<and> qUpperConfidenceBound_init (Some (Finite 0)) = Inr (qUpperConfidenceBound (Finite 0))
   \<and> UpperConfidenceBound_init (Some (Finite (25 / 10))) = Inr (UpperConfidenceBound (Finite (25 / 10)))
   \<and> qUpperConfidenceBound_init (Some (Finite (25 / 10))) = Inr (qUpperConfidenceBound (Finite (25 / 10)))
   \<and> (\<not> (\<exists>r. sf = Finite r \<and> 0 < r \<and> r \<le> 1)
        \<longrightarrow> (\<exists>msg. qNegIntegratedPosteriorVariance_init sf snp sm = Inl (ValueError msg)))
   \<and> (n \<le> 0
        \<longrightarrow> (\<exists>msg. qNegIntegratedPosteriorVariance_init sf (Some n) sm = Inl (ValueError msg)))"
proof -
  have ucb: "UpperConfidenceBound_init (Some (Finite (- (1 / 10)))) = Inl (range_error ''beta'' ''>='' ''0.0'')"
    "qUpperConfidenceBound_init (Some (Finite (- (1 / 10)))) = Inl (range_error ''beta'' ''>='' ''0.0'')"
    "UpperConfidenceBound_init (Some (Finite 0)) = Inr (UpperConfidenceBound (Finite 0))"
    "qUpperConfidenceBound_init (Some (Finite 0)) = Inr (qUpperConfidenceBound (Finite 0))"
    "UpperConfidenceBound_init (Some (Finite (25 / 10))) = Inr (UpperConfidenceBound (Finite (25 / 10)))"
    "qUpperConfidenceBound_init (Some (Finite (25 / 10))) = Inr (qUpperConfidenceBound (Finite (25 / 10)))"
    by (simp_all add: UpperConfidenceBound_init_def qUpperConfidenceBound_init_def validate_beta_def)
  have frac: "\<exists>msg. qNegIntegratedPosteriorVariance_init sf snp sm = Inl (ValueError msg)"
    if "\<not> (\<exists>r. sf = Finite r \<and> 0 < r \<and> r \<le> 1)"
    using that
    by (cases sf) (auto simp: qNegIntegratedPosteriorVariance_init_def range_error_def)
  have npts: "\<exists>msg. qNegIntegratedPosteriorVariance_init sf (Some n) sm = Inl (ValueError msg)"
    if "n \<le> 0"
    using that
    by (auto simp: qNegIntegratedPosteriorVariance_init_def range_error_def)
  from ucb frac npts show ?thesis by blast
qed

theorem hyperparameter_validation_witness:
  "(\<exists>msg. qNegIntegratedPosteriorVariance_init (Finite (3 / 2)) None Random = Inl (ValueError msg))
   \<and> (\<exists>msg. qNegIntegratedPosteriorVariance_init (Finite 1) (Some 0) Random = Inl (ValueError msg))
   \<and> UpperConfidenceBound_init (Some (Finite (- (1 / 10)))) = Inl (range_error ''beta'' ''>='' ''0.0'')
   \<and> UpperConfidenceBound_init (Some (Finite (25 / 10))) = Inr (UpperConfidenceBound (Finite (25 / 10)))"
proof -
  note h = hyperparameter_validation [of "Finite (3 / 2)" None Random 0]
  have "\<not> (\<exists>r. Finite (3 / 2) = Finite r \<and> 0 < r \<and> r \<le> 1)" by simp
  with h have a: "\<exists>msg. qNegIntegratedPosteriorVariance_init (Finite (3 / 2)) None Random = Inl (ValueError msg)"
    by blast
  note h' = hyperparameter_validation [of "Finite 1" None Random 0]
  have "(0::int) \<le> 0" by simp
  with h' have b: "\<exists>msg. qNegIntegratedPosteriorVariance_init (Finite 1) (Some 0) Random = Inl (ValueError msg)"
    by blast
  from a b h show ?thesis by blast
qed

lemma qNegIntegratedPosteriorVariance_init_Inr:
  "qNegIntegratedPosteriorVariance_init sf snp sm = Inr a \<Longrightarrow>
     (\<exists>r. sf = Finite r \<and> 0 < r \<and> r \<le> 1) \<and> (\<forall>k. snp = Some k \<longrightarrow> 0 < k)
     \<and> a = \<lparr>sampling_fraction = sf, sampling_n_points = snp, sampling_method = sm\<rparr>"
  by (cases sf; cases snp) (auto simp: qNegIntegratedPosteriorVariance_init_def split: if_splits)

lemma class_named: "\<exists>pre post. sampling_n_points_message = pre @ ''qNegIntegratedPosteriorVariance'' @ post"
  unfolding sampling_n_points_message_def class_repr_def
  by (intro exI [of _ "[CHR 0x27] @ ''sampling_n_points'' @ [CHR 0x27] @ '' must be provided for ''
     @ [CHR 0x27] @ ''<class '' @ [CHR 0x27] @ ''baybe.acquisition.acqfs.''"]
     exI [of _ "[CHR 0x27] @ ''>'' @ [CHR 0x27] @ '' when'' @ ''sampling purely continuous search spaces.''"]) simp

text \<open>
  Claim C5. On a search space without a discrete part and with a continuous part, an
  instance with \<open>sampling_n_points = None\<close> raises the \<open>ValueError\<close> whose message
  contains the name of the class. An instance with \<open>sampling_n_points = k\<close>, \<open>k > 0\<close>,
  returns what \<open>samples_random(k)\<close> of the continuous part returns, so exactly \<open>k\<close>
  rows when that sampler returns as many rows as it is asked for.
\<close>

theorem purely_continuous_integration_points:
  assumes "discrete ss = None" and "continuous ss = Some c"
  shows "(sampling_n_points self = None \<longrightarrow>
            get_integration_points sample_df samples_rnd self ss
              = Inl (ValueError sampling_n_points_message)
            \<and> (\<exists>pre post. sampling_n_points_message
                   = pre @ ''qNegIntegratedPosteriorVariance'' @ post))
         \<and> (sampling_n_points self = Some k \<and> 0 < k \<longrightarrow>
            get_integration_points sample_df samples_rnd self ss = samples_rnd c k
            \<and> (\<forall>rows. samples_rnd c k = Inr rows \<and> int (length rows) = k \<longrightarrow>
                  (\<exists>r. get_integration_points sample_df samples_rnd self ss = Inr r
                        \<and> int (length r) = k)))"
proof (intro conjI impI)
  assume "sampling_n_points self = None"
  with assms show "get_integration_points sample_df samples_rnd self ss
              = Inl (ValueError sampling_n_points_message)"
    by (simp add: get_integration_points_def discrete_part_def continuous_part_def py_or_def)
  show "\<exists>pre post. sampling_n_points_message = pre @ ''qNegIntegratedPosteriorVariance'' @ post"
    by (rule class_named)
next
  assume k: "sampling_n_points self = Some k \<and> 0 < k"
  with assms show eq: "get_integration_points sample_df samples_rnd self ss = samples_rnd c k"
    by (cases "samples_rnd c k")
       (simp_all add: get_integration_points_def discrete_part_def continuous_part_def py_or_def)
  then show "\<forall>rows. samples_rnd c k = Inr rows \<and> int (length rows) = k \<longrightarrow>
                  (\<exists>r. get_integration_points sample_df samples_rnd self ss = Inr r
                        \<and> int (length r) = k)"
    by simp
qed

theorem purely_continuous_integration_points_witness:
  "discrete continuous_space = None
   \<and> continuous continuous_space = Some \<lparr>empty = False\<rparr>
   \<and> get_integration_points sample_first samples_origin
         \<lparr>sampling_fraction = Finite 1, sampling_n_points = None, sampling_method = Random\<rparr>
         continuous_space
       = Inl (ValueError sampling_n_points_message)
   \<and> get_integration_points sample_first samples_origin
         \<lparr>sampling_fraction = Finite 1, sampling_n_points = Some 2, sampling_method = Random\<rparr>
         continuous_space
       = Inr [(0, [0]), (1, [0])]"
proof -
  have d: "discrete continuous_space = None"
    and c: "continuous continuous_space = Some \<lparr>empty = False\<rparr>"
    by (simp_all add: continuous_space_def)
  note none = purely_continuous_integration_points [OF d c,
      of "\<lparr>sampling_fraction = Finite 1, sampling_n_points = None, sampling_method = Random\<rparr>"
         sample_first samples_origin 2]
  note some = purely_continuous_integration_points [OF d c,
      of "\<lparr>sampling_fraction = Finite 1, sampling_n_points = Some 2, sampling_method = Random\<rparr>"
         sample_first samples_origin 2]
  from none have a: "get_integration_points sample_first samples_origin
         \<lparr>sampling_fraction = Finite 1, sampling_n_points = None, sampling_method = Random\<rparr>
         continuous_space = Inl (ValueError sampling_n_points_message)"
    by simp
  have rows: "samples_origin \<lparr>empty = False\<rparr> 2 = Inr [(0, [0]), (1, [0])]"
    by (simp add: samples_origin_def upt_rec [of 0] upt_rec [of 1] numeral_2_eq_2)
  from some have "get_integration_points sample_first samples_origin
         \<lparr>sampling_fraction = Finite 1, sampling_n_points = Some 2, sampling_method = Random\<rparr>
         continuous_space = samples_origin \<lparr>empty = False\<rparr> 2"
    by simp
  with rows have b: "get_integration_points sample_first samples_origin
         \<lparr>sampling_fraction = Finite 1, sampling_n_points = Some 2, sampling_method = Random\<rparr>
         continuous_space = Inr [(0, [0]), (1, [0])]"
    by simp
  from d c a b show ?thesis by blast
qed

lemma length_side_by_side: "length (side_by_side p q) = min (length p) (length q)"
  by (simp add: side_by_side_def)

lemma labels_side_by_side: "length p \<le> length q \<Longrightarrow> labels (side_by_side p q) = labels p"
  unfolding side_by_side_def labels_def
  by (induction p arbitrary: q) (auto simp: neq_Nil_conv Suc_le_length_iff)

lemma discrete_part_n_candidates:
  assumes init: "qNegIntegratedPosteriorVariance_init (Finite f) snp sm = Inr self"
    and d: "discrete ss = Some d"
    and small: "length (comp_rep d) < 2 ^ 53"
  shows "discrete_part sample_df self ss
           = (case sample_df (comp_rep d)
                     (case snp of Some k \<Rightarrow> k
                      | None \<Rightarrow> \<lceil>round_to float64 (f * real (length (comp_rep d)))\<rceil>) sm of
                Inl e \<Rightarrow> Inl e
              | Inr sampled_disc \<Rightarrow>
                  Inr (Some (case snp of Some k \<Rightarrow> k
                             | None \<Rightarrow> \<lceil>round_to float64 (f * real (length (comp_rep d)))\<rceil>),
                       [sampled_disc]))"
proof -
  from qNegIntegratedPosteriorVariance_init_Inr [OF init]
  have f: "0 < f" "f \<le> 1" and k: "\<forall>k. snp = Some k \<longrightarrow> 0 < k"
    and self: "self = \<lparr>sampling_fraction = Finite f, sampling_n_points = snp,
                       sampling_method = sm\<rparr>"
    by auto
  note fn = float_of_nat_exact [OF small]
  from ceil_of_product [OF f small]
  have mc: "math_ceil (to_float float64 (f * real (length (comp_rep d))))
              = Inr \<lceil>round_to float64 (f * real (length (comp_rep d)))\<rceil>"
    unfolding fn by simp
  show ?thesis
  proof (cases snp)
    case None
    with self d show ?thesis
      by (cases "sample_df (comp_rep d)
                   \<lceil>round_to float64 (f * real (length (comp_rep d)))\<rceil> sm")
         (simp_all add: discrete_part_def Let_def fn mc)
  next
    case (Some n)
    with k have "n \<noteq> 0" by auto
    with Some self d show ?thesis
      by (cases "sample_df (comp_rep d) n sm") (simp_all add: discrete_part_def Let_def)
  qed
qed

text \<open>
  Claim C6. (as amended) For an instance that passed construction and a search space
  with a discrete part of \<open>D\<close> rows, \<open>D\<close> below \<open>2^53\<close>, the discrete sampler is asked for
  \<open>n\<close> rows of the computational representation, where \<open>n\<close> is \<open>sampling_n_points\<close> when
  it is given and otherwise the ceiling of the double-precision product
  \<open>sampling_fraction * D\<close>, that is of the double nearest to the product. When the
  samplers return as many rows as they are asked for, the integration points are \<open>n\<close>
  rows, with the labels of the discrete sample. For \<open>sampling_fraction = 0.5\<close> and no
  \<open>sampling_n_points\<close> the product is exact and \<open>n\<close> is the ceiling of \<open>0.5 * D\<close>.
\<close>

theorem discrete_integration_points_count:
  assumes init: "qNegIntegratedPosteriorVariance_init (Finite f) snp sm = Inr self"
    and d: "discrete ss = Some d"
    and small: "length (comp_rep d) < 2 ^ 53"
    and n: "n = (case snp of Some k \<Rightarrow> k
                 | None \<Rightarrow> \<lceil>round_to float64 (f * real (length (comp_rep d)))\<rceil>)"
  shows "discrete_part sample_df self ss
           = (case sample_df (comp_rep d) n sm of
                Inl e \<Rightarrow> Inl e
              | Inr sampled_disc \<Rightarrow> Inr (Some n, [sampled_disc]))
         \<and> (sample_df (comp_rep d) n sm = Inr s \<and> int (length s) = n
              \<and> (continuous ss = None
                  \<or> (\<exists>c sc. continuous ss = Some c \<and> n \<noteq> 0
                        \<and> samples_rnd c n = Inr sc \<and> int (length sc) = n))
              \<longrightarrow> (\<exists>r. get_integration_points sample_df samples_rnd self ss = Inr r
                       \<and> int (length r) = n \<and> labels r = labels s))
         \<and> (f = 1 / 2 \<and> snp = None \<longrightarrow> n = \<lceil>(1 / 2) * real (length (comp_rep d))\<rceil>)"
proof (intro conjI impI)
  show dp: "discrete_part sample_df self ss
           = (case sample_df (comp_rep d) n sm of
                Inl e \<Rightarrow> Inl e
              | Inr sampled_disc \<Rightarrow> Inr (Some n, [sampled_disc]))"
    unfolding n by (rule discrete_part_n_candidates [OF init d small])
  show "n = \<lceil>(1 / 2) * real (length (comp_rep d))\<rceil>" if "f = 1 / 2 \<and> snp = None"
  proof -
    from that have f: "f = 1 / 2" and s: "snp = None" by blast+
    from small have "int (length (comp_rep d)) < int (2 ^ 53)" by (simp only: of_nat_less_iff)
    then have "\<bar>int (length (comp_rep d))\<bar> < 2 ^ precision float64" by simp
    then have "round_to float64 (1 / 2 * real (length (comp_rep d)))
                 = 1 / 2 * real (length (comp_rep d))"
      by (intro round_to_exact [where k = "int (length (comp_rep d))" and j = "- 1"]) simp_all
    then show ?thesis unfolding n f s by (simp only: option.case)
  qed
  assume h: "sample_df (comp_rep d) n sm = Inr s \<and> int (length s) = n
              \<and> (continuous ss = None
                  \<or> (\<exists>c sc. continuous ss = Some c \<and> n \<noteq> 0
                        \<and> samples_rnd c n = Inr sc \<and> int (length sc) = n))"
  then have s: "sample_df (comp_rep d) n sm = Inr s" and ls: "int (length s) = n" by simp_all
  from dp s have dp': "discrete_part sample_df self ss = Inr (Some n, [s])" by simp
  from h consider "continuous ss = None"
    | c sc where "continuous ss = Some c" "n \<noteq> 0" "samples_rnd c n = Inr sc" "int (length sc) = n"
    by auto
  then show "\<exists>r. get_integration_points sample_df samples_rnd self ss = Inr r
                       \<and> int (length r) = n \<and> labels r = labels s"
  proof cases
    case 1
    with dp' ls show ?thesis
      by (simp add: get_integration_points_def continuous_part_def)
  next
    case 2
    from 2(4) ls have eq: "length sc = length s" by linarith
    then have al: "set_index sc (labels s) = Inr (zip (labels s) (map snd sc))"
      by (simp add: set_index_def labels_def)
    have "get_integration_points sample_df samples_rnd self ss
            = Inr (side_by_side s (zip (labels s) (map snd sc)))"
      using dp' 2(1,2,3) al
      by (simp add: get_integration_points_def continuous_part_def py_or_def)
    moreover have "length (side_by_side s (zip (labels s) (map snd sc))) = length s"
      using eq by (simp add: length_side_by_side labels_def)
    moreover have "labels (side_by_side s (zip (labels s) (map snd sc))) = labels s"
      using eq by (intro labels_side_by_side) (simp add: labels_def)
    ultimately show ?thesis using ls by simp
  qed
qed

theorem discrete_integration_points_count_witness:
  "qNegIntegratedPosteriorVariance_init (Finite (1 / 2)) None Random
       = Inr \<lparr>sampling_fraction = Finite (1 / 2), sampling_n_points = None,
               sampling_method = Random\<rparr>
   \<and> discrete hybrid_space = Some three_rows
   \<and> \<lceil>(1 / 2) * real (length (comp_rep three_rows))\<rceil> = (2 :: int)
   \<and> sample_first (comp_rep three_rows) 2 Random = Inr [(0, [0]), (1, [1])]
   \<and> samples_origin \<lparr>empty = False\<rparr> 2 = Inr [(0, [0]), (1, [0])]
   \<and> (\<exists>r. get_integration_points sample_first samples_origin
              \<lparr>sampling_fraction = Finite (1 / 2), sampling_n_points = None,
                sampling_method = Random\<rparr> hybrid_space = Inr r
            \<and> int (length r) = 2 \<and> labels r = [0, 1])"
proof -
  let ?self = "\<lparr>sampling_fraction = Finite (1 / 2), sampling_n_points = None,
                 sampling_method = Random\<rparr>"
  have init: "qNegIntegratedPosteriorVariance_init (Finite (1 / 2)) None Random = Inr ?self"
    by (simp add: qNegIntegratedPosteriorVariance_init_def)
  have d: "discrete hybrid_space = Some three_rows"
    and c: "continuous hybrid_space = Some \<lparr>empty = False\<rparr>"
    by (simp_all add: hybrid_space_def)
  have small: "length (comp_rep three_rows) < 2 ^ 53"
    by (simp add: three_rows_def)
  have "round_to float64 (3 / 2) = 3 / 2"
    by (rule round_to_exact [where k = 3 and j = "- 1"]) simp_all
  then have rt: "round_to float64 (1 / 2 * real (length (comp_rep three_rows))) = 3 / 2"
    by (simp add: three_rows_def)
  have n: "(2 :: int) = (case None of Some k \<Rightarrow> k
             | None \<Rightarrow> \<lceil>round_to float64 (1 / 2 * real (length (comp_rep three_rows)))\<rceil>)"
    unfolding rt by (simp add: ceiling_eq_iff)
  have n': "\<lceil>(1 / 2) * real (length (comp_rep three_rows))\<rceil> = (2 :: int)"
    by (simp add: three_rows_def ceiling_eq_iff)
  have s: "sample_first (comp_rep three_rows) 2 Random = Inr [(0, [0]), (1, [1])]"
    by (simp add: sample_first_def three_rows_def numeral_2_eq_2)
  have sc: "samples_origin \<lparr>empty = False\<rparr> 2 = Inr [(0, [0]), (1, [0])]"
    by (simp add: samples_origin_def upt_rec [of 0] upt_rec [of 1] numeral_2_eq_2)
  note inst = discrete_integration_points_count [OF init d small n,
      of sample_first "[(0, [0]), (1, [1])]" samples_origin]
  have pre: "sample_first (comp_rep three_rows) 2 Random = Inr [(0, [0]), (1, [1])]
       \<and> int (length ([(0, [0]), (1, [1])] :: real list df)) = 2
       \<and> (continuous hybrid_space = None
           \<or> (\<exists>c sc. continuous hybrid_space = Some c \<and> (2 :: int) \<noteq> 0
                 \<and> samples_origin c 2 = Inr sc \<and> int (length sc) = 2))"
    using s sc c by simp
  from inst pre
  have "\<exists>r. get_integration_points sample_first samples_origin ?self hybrid_space = Inr r
            \<and> int (length r) = 2 \<and> labels r = labels ([(0, [0]), (1, [1])] :: real list df)"
    by blast
  then have r: "\<exists>r. get_integration_points sample_first samples_origin ?self hybrid_space = Inr r
            \<and> int (length r) = 2 \<and> labels r = [0, 1]"
    by (simp add: labels_def)
  from init d n' s sc r show ?thesis by blast
qed

lemma double_of_one_tenth: "to_float float64 (1 / 10) = Finite (3602879701896397 / 2 ^ 55)"
proof -
  have "round_to float64 (1 / 10) = of_int 7205759403792794 * 2 powi (- 56)"
    by (rule round_to_eqI [where k = "- 4"]) (simp_all add: round_half_even_def)
  then have "round_to float64 (1 / 10) = 3602879701896397 / 2 ^ 55" by simp
  then show ?thesis by (simp add: to_float_def)
qed

lemma double_product_one_tenth: "round_to float64 (3602879701896397 / 2 ^ 55 * 10) = 1"
proof -
  have "round_to float64 (3602879701896397 / 2 ^ 55 * 10)
          = of_int 4503599627370496 * 2 powi (- 52)"
    by (rule round_to_eqI [where k = "0"]) (simp_all add: round_half_even_def)
  then show ?thesis by simp
qed

lemma double_of_28_hundredths:
  "to_float float64 (28 / 100) = Finite (1261007895663739 / 2 ^ 52)"
proof -
  have "round_to float64 (28 / 100) = of_int 5044031582654956 * 2 powi (- 54)"
    by (rule round_to_eqI [where k = "- 2"]) (simp_all add: round_half_even_def)
  then have "round_to float64 (28 / 100) = 1261007895663739 / 2 ^ 52" by simp
  then show ?thesis by (simp add: to_float_def)
qed

lemma double_product_28_hundredths:
  "round_to float64 (1261007895663739 / 2 ^ 52 * 25) = 7881299347898369 / 2 ^ 50"
proof -
  have "round_to float64 (1261007895663739 / 2 ^ 52 * 25)
          = of_int 7881299347898369 * 2 powi (- 50)"
    by (rule round_to_eqI [where k = "2"]) (simp_all add: round_half_even_def)
  then show ?thesis by simp
qed

lemma length_numbered_rows: "length (comp_rep (numbered_rows n)) = n"
  by (simp add: numbered_rows_def)

text \<open>
  Claim C6 as the spec words it, with the ceiling of the product itself, fails on the
  code under either reading of the fraction. For the fraction written 0.1 and 10 rows
  the code asks for 1 row, where the product of the stored double with 10 has the
  ceiling 2. For the fraction written 0.28 and 25 rows the code asks for 8 rows, where
  the product of 0.28 with 25 has the ceiling 7.
\<close>

theorem rounded_product_counterexample:
  "qNegIntegratedPosteriorVariance_init (to_float float64 (1 / 10)) None Random
       = Inr \<lparr>sampling_fraction = Finite (3602879701896397 / 2 ^ 55),
               sampling_n_points = None, sampling_method = Random\<rparr>
   \<and> discrete_part sample_first
         \<lparr>sampling_fraction = Finite (3602879701896397 / 2 ^ 55),
           sampling_n_points = None, sampling_method = Random\<rparr> (numbered_space 10)
       = Inr (Some 1, [take 1 (comp_rep (numbered_rows 10))])
   \<and> \<lceil>3602879701896397 / 2 ^ 55 * real (length (comp_rep (numbered_rows 10)))\<rceil> = (2 :: int)
   \<and> qNegIntegratedPosteriorVariance_init (to_float float64 (28 / 100)) None Random
       = Inr \<lparr>sampling_fraction = Finite (1261007895663739 / 2 ^ 52),
               sampling_n_points = None, sampling_method = Random\<rparr>
   \<and> discrete_part sample_first
         \<lparr>sampling_fraction = Finite (1261007895663739 / 2 ^ 52),
           sampling_n_points = None, sampling_method = Random\<rparr> (numbered_space 25)
       = Inr (Some 8, [take 8 (comp_rep (numbered_rows 25))])
   \<and> \<lceil>28 / 100 * real (length (comp_rep (numbered_rows 25)))\<rceil> = (7 :: int)"
proof -
  let ?a = "\<lparr>sampling_fraction = Finite (3602879701896397 / 2 ^ 55),
               sampling_n_points = None, sampling_method = Random\<rparr>"
  let ?b = "\<lparr>sampling_fraction = Finite (1261007895663739 / 2 ^ 52),
               sampling_n_points = None, sampling_method = Random\<rparr>"
  have ia: "qNegIntegratedPosteriorVariance_init (Finite (3602879701896397 / 2 ^ 55)) None Random
              = Inr ?a"
    and ib: "qNegIntegratedPosteriorVariance_init (Finite (1261007895663739 / 2 ^ 52)) None Random
              = Inr ?b"
    by (simp_all add: qNegIntegratedPosteriorVariance_init_def)
  have da: "discrete (numbered_space 10) = Some (numbered_rows 10)"
    and db: "discrete (numbered_space 25) = Some (numbered_rows 25)"
    by (simp_all add: numbered_space_def)
  have sa: "length (comp_rep (numbered_rows 10)) < 2 ^ 53"
    and sb: "length (comp_rep (numbered_rows 25)) < 2 ^ 53"
    by (simp_all add: length_numbered_rows)
  have "round_to float64 (3602879701896397 / 2 ^ 55
              * real (length (comp_rep (numbered_rows 10)))) = 1"
    by (simp only: length_numbered_rows of_nat_numeral double_product_one_tenth)
  then have ca: "\<lceil>round_to float64 (3602879701896397 / 2 ^ 55
              * real (length (comp_rep (numbered_rows 10))))\<rceil> = 1"
    by (simp only: ceiling_one)
  have "round_to float64 (1261007895663739 / 2 ^ 52
              * real (length (comp_rep (numbered_rows 25)))) = 7881299347898369 / 2 ^ 50"
    by (simp only: length_numbered_rows of_nat_numeral double_product_28_hundredths)
  moreover have "\<lceil>7881299347898369 / 2 ^ 50 :: real\<rceil> = 8"
    by (simp add: ceiling_eq_iff)
  ultimately have cb: "\<lceil>round_to float64 (1261007895663739 / 2 ^ 52
              * real (length (comp_rep (numbered_rows 25))))\<rceil> = 8"
    by (simp only:)
  from discrete_part_n_candidates [OF ia da sa, of sample_first]
  have pa: "discrete_part sample_first ?a (numbered_space 10)
              = Inr (Some 1, [take 1 (comp_rep (numbered_rows 10))])"
    unfolding ca by (simp add: sample_first_def)
  from discrete_part_n_candidates [OF ib db sb, of sample_first]
  have pb: "discrete_part sample_first ?b (numbered_space 25)
              = Inr (Some 8, [take 8 (comp_rep (numbered_rows 25))])"
    unfolding cb by (simp add: sample_first_def)
  have ea: "\<lceil>3602879701896397 / 2 ^ 55 * real (length (comp_rep (numbered_rows 10)))\<rceil>
              = (2 :: int)"
    by (simp add: length_numbered_rows ceiling_eq_iff)
  have eb: "\<lceil>28 / 100 * real (length (comp_rep (numbered_rows 25)))\<rceil> = (7 :: int)"
    by (simp add: length_numbered_rows ceiling_eq_iff)
  from ia ib pa pb ea eb show ?thesis
    by (simp only: double_of_one_tenth double_of_28_hundredths simp_thms)
qed

text \<open>
  Claim C10. On a search space with a continuous part and a discrete part of no
  rows, for an instance that passed construction: without \<open>sampling_n_points\<close> the
  discrete part computes the number 0, and once the discrete sampler has returned, the
  continuous part takes the 0 as absent, falls back to \<open>sampling_n_points\<close>, which is
  \<open>None\<close>, and the call raises the \<open>ValueError\<close> of the purely continuous case. With
  \<open>sampling_n_points = k\<close> the continuous sampler is asked for \<open>k\<close> rows, once the
  discrete sampler has returned.
\<close>

theorem empty_discrete_part_falls_back:
  assumes d: "discrete ss = Some d" and empty_table: "comp_rep d = []"
    and c: "continuous ss = Some c"
  shows "(qNegIntegratedPosteriorVariance_init sf None sm = Inr self \<longrightarrow>
            discrete_part sample_df self ss
              = (case sample_df [] 0 sm of Inl e \<Rightarrow> Inl e | Inr s \<Rightarrow> Inr (Some 0, [s]))
            \<and> get_integration_points sample_df samples_rnd self ss
              = (case sample_df [] 0 sm of
                   Inl e \<Rightarrow> Inl e
                 | Inr s \<Rightarrow> Inl (ValueError sampling_n_points_message)))
         \<and> (qNegIntegratedPosteriorVariance_init sf (Some k) sm = Inr self \<longrightarrow>
            get_integration_points sample_df samples_rnd self ss
              = (case sample_df [] k sm of
                   Inl e \<Rightarrow> Inl e
                 | Inr s \<Rightarrow>
                     (case samples_rnd c k of
                        Inl e \<Rightarrow> Inl e
                      | Inr sc \<Rightarrow>
                          (case set_index sc (labels s) of
                             Inl e \<Rightarrow> Inl e
                           | Inr aligned \<Rightarrow> Inr (side_by_side s aligned)))))"
proof (intro conjI impI)
  assume init: "qNegIntegratedPosteriorVariance_init sf None sm = Inr self"
  from qNegIntegratedPosteriorVariance_init_Inr [OF init] obtain f where f: "sf = Finite f" by blast
  from empty_table have small: "length (comp_rep d) < 2 ^ 53" by simp
  from discrete_part_n_candidates [OF init [unfolded f] d small, of sample_df] empty_table
  show dp: "discrete_part sample_df self ss
              = (case sample_df [] 0 sm of Inl e \<Rightarrow> Inl e | Inr s \<Rightarrow> Inr (Some 0, [s]))"
    by (cases "sample_df [] 0 sm") (simp_all add: round_to_def)
  from qNegIntegratedPosteriorVariance_init_Inr [OF init]
  have "sampling_n_points self = None" by auto
  with dp c show "get_integration_points sample_df samples_rnd self ss
              = (case sample_df [] 0 sm of
                   Inl e \<Rightarrow> Inl e
                 | Inr s \<Rightarrow> Inl (ValueError sampling_n_points_message))"
    by (simp add: get_integration_points_def continuous_part_def py_or_def split: sum.splits)
next
  assume init: "qNegIntegratedPosteriorVariance_init sf (Some k) sm = Inr self"
  from qNegIntegratedPosteriorVariance_init_Inr [OF init] obtain f where f: "sf = Finite f"
    and k: "0 < k" by blast
  from empty_table have small: "length (comp_rep d) < 2 ^ 53" by simp
  from discrete_part_n_candidates [OF init [unfolded f] d small, of sample_df] empty_table
  have dp: "discrete_part sample_df self ss
              = (case sample_df [] k sm of Inl e \<Rightarrow> Inl e | Inr s \<Rightarrow> Inr (Some k, [s]))"
    by (cases "sample_df [] k sm") simp_all
  with c k show "get_integration_points sample_df samples_rnd self ss
              = (case sample_df [] k sm of
                   Inl e \<Rightarrow> Inl e
                 | Inr s \<Rightarrow>
                     (case samples_rnd c k of
                        Inl e \<Rightarrow> Inl e
                      | Inr sc \<Rightarrow>
                          (case set_index sc (labels s) of
                             Inl e \<Rightarrow> Inl e
                           | Inr aligned \<Rightarrow> Inr (side_by_side s aligned))))"
    by (simp add: get_integration_points_def continuous_part_def py_or_def split: sum.splits)
qed

theorem empty_discrete_part_falls_back_witness:
  "discrete hybrid_space_no_rows = Some no_rows
   \<and> comp_rep no_rows = []
   \<and> continuous hybrid_space_no_rows = Some \<lparr>empty = False\<rparr>
   \<and> qNegIntegratedPosteriorVariance_init (Finite 1) None Random
       = Inr \<lparr>sampling_fraction = Finite 1, sampling_n_points = None, sampling_method = Random\<rparr>
   \<and> get_integration_points sample_first samples_origin
         \<lparr>sampling_fraction = Finite 1, sampling_n_points = None, sampling_method = Random\<rparr>
         hybrid_space_no_rows
       = Inl (ValueError sampling_n_points_message)
   \<and> qNegIntegratedPosteriorVariance_init (Finite 1) (Some 2) Random
       = Inr \<lparr>sampling_fraction = Finite 1, sampling_n_points = Some 2, sampling_method = Random\<rparr>
   \<and> get_integration_points sample_first samples_origin
         \<lparr>sampling_fraction = Finite 1, sampling_n_points = Some 2, sampling_method = Random\<rparr>
         hybrid_space_no_rows
       = Inl (ValueError
           ''Length mismatch: Expected axis has 2 elements, new values have 0 elements'')"
proof -
  let ?none = "\<lparr>sampling_fraction = Finite 1, sampling_n_points = None, sampling_method = Random\<rparr>"
  let ?some = "\<lparr>sampling_fraction = Finite 1, sampling_n_points = Some 2, sampling_method = Random\<rparr>"
  have d: "discrete hybrid_space_no_rows = Some no_rows"
    and c: "continuous hybrid_space_no_rows = Some \<lparr>empty = False\<rparr>"
    by (simp_all add: hybrid_space_no_rows_def)
  have e: "comp_rep no_rows = []" by (simp add: no_rows_def)
  have i0: "qNegIntegratedPosteriorVariance_init (Finite 1) None Random = Inr ?none"
    and i2: "qNegIntegratedPosteriorVariance_init (Finite 1) (Some 2) Random = Inr ?some"
    by (simp_all add: qNegIntegratedPosteriorVariance_init_def)
  note inst0 = empty_discrete_part_falls_back [OF d e c,
      of "Finite 1" Random ?none sample_first samples_origin 2]
  note inst2 = empty_discrete_part_falls_back [OF d e c,
      of "Finite 1" Random ?some sample_first samples_origin 2]
  from inst0 i0
  have a: "get_integration_points sample_first samples_origin ?none hybrid_space_no_rows
       = Inl (ValueError sampling_n_points_message)"
    by (simp add: sample_first_def)
  from inst2 i2
  have b: "get_integration_points sample_first samples_origin ?some hybrid_space_no_rows
       = Inl (ValueError
           ''Length mismatch: Expected axis has 2 elements, new values have 0 elements'')"
    by (simp add: sample_first_def samples_origin_def set_index_def labels_def
          length_mismatch_message_def str_nat.simps)
  from d e c i0 a i2 b show ?thesis by blast
qed

end
